(* ===== verification/Prelude.thy ===== *)
theory Prelude
  imports Main
begin

text \<open>
  Shared vocabulary of the development: the JavaScript values that cross the
  service's boundaries (JSON request bodies, results of scripts run in the
  driven page), the few JavaScript built-ins the service relies on
  (\<open>typeof\<close>, truthiness, \<open>String(v)\<close>, \<open>Array.prototype.join\<close>,
  \<open>indexOf\<close>, \<open>Object.keys\<close>), the named collections of lemmas the
  component theories feed, and generic lemmas on lists and maps.
\<close>

named_theorems js_simps "evaluation rules of the JavaScript built-ins"
named_theorems handler_defs "definitions of the request handlers of the service"

section \<open>JavaScript values\<close>

text \<open>
  A JSON value, as produced by \<open>JSON.parse\<close> of a request body or by the
  serialisation of a script result. Numbers are modelled as integers: the
  identifiers the service handles are integers, and the fractional case only
  adds further unknown identifiers. An absent property (\<open>undefined\<close>) is
  \<^const>\<open>None\<close> of \<open>jsval option\<close>.
\<close>

datatype jsval =
    JNull
  | JBool bool
  | JNum int
  | JStr string
  | JArr "jsval list"
  | JObj "(string \<times> jsval) list"

type_synonym js_object = "(string \<times> jsval) list"

text \<open>\<open>obj[key]\<close> on a parsed object (keys of a parsed object are distinct).\<close>

definition js_get :: "js_object \<Rightarrow> string \<Rightarrow> jsval option" where
  "js_get obj k = map_of obj k"

text \<open>\<open>Object.keys(obj)\<close>.\<close>

definition js_keys :: "js_object \<Rightarrow> string list" where
  "js_keys obj = map fst obj"

text \<open>\<open>v.prop\<close> on an arbitrary value: \<open>TypeError\<close> on \<open>null\<close> and
  \<open>undefined\<close>, \<open>undefined\<close> on primitives and arrays (no own property of
  that name), the property of an object.\<close>

fun js_prop :: "jsval option \<Rightarrow> string \<Rightarrow> string + jsval option" where
  "js_prop None k = Inl (''Cannot read property '' @ k @ '' of undefined'')"
| "js_prop (Some JNull) k = Inl (''Cannot read property '' @ k @ '' of null'')"
| "js_prop (Some (JObj kvs)) k = Inr (map_of kvs k)"
| "js_prop (Some _) k = Inr None"

text \<open>\<open>typeof v\<close>.\<close>

fun js_typeof :: "jsval option \<Rightarrow> string" where
  "js_typeof None = ''undefined''"
| "js_typeof (Some JNull) = ''object''"
| "js_typeof (Some (JBool _)) = ''boolean''"
| "js_typeof (Some (JNum _)) = ''number''"
| "js_typeof (Some (JStr _)) = ''string''"
| "js_typeof (Some (JArr _)) = ''object''"
| "js_typeof (Some (JObj _)) = ''object''"

text \<open>Truthiness (\<open>if (v)\<close>, \<open>!v\<close>): \<open>undefined\<close>, \<open>null\<close>, \<open>false\<close>,
  \<open>0\<close> and the empty string are falsy; arrays and objects are truthy.\<close>

fun js_truthy :: "jsval option \<Rightarrow> bool" where
  "js_truthy None = False"
| "js_truthy (Some JNull) = False"
| "js_truthy (Some (JBool b)) = b"
| "js_truthy (Some (JNum n)) = (n \<noteq> 0)"
| "js_truthy (Some (JStr s)) = (s \<noteq> [])"
| "js_truthy (Some (JArr _)) = True"
| "js_truthy (Some (JObj _)) = True"

section \<open>Strings\<close>

text \<open>Decimal rendering of a number, as string conversion prints it.\<close>

fun str_of_nat :: "nat \<Rightarrow> string" where
  "str_of_nat n =
     (if n < 10 then [''0123456789'' ! n]
      else str_of_nat (n div 10) @ [''0123456789'' ! (n mod 10)])"

declare str_of_nat.simps [simp del]

definition str_of_int :: "int \<Rightarrow> string" where
  "str_of_int i = (if i < 0 then CHR ''-'' # str_of_nat (nat (- i)) else str_of_nat (nat i))"

text \<open>\<open>xs.join(sep)\<close>.\<close>

fun js_join :: "string \<Rightarrow> string list \<Rightarrow> string" where
  "js_join sep [] = []"
| "js_join sep [x] = x"
| "js_join sep (x # xs) = x @ sep @ js_join sep xs"

text \<open>\<open>String(v)\<close>, as a template literal \<open>${v}\<close> or string
  concatenation renders a value; inside an array \<open>null\<close> renders empty.\<close>

fun js_to_string :: "jsval \<Rightarrow> string" where
  "js_to_string JNull = ''null''"
| "js_to_string (JBool b) = (if b then ''true'' else ''false'')"
| "js_to_string (JNum n) = str_of_int n"
| "js_to_string (JStr s) = s"
| "js_to_string (JArr vs) =
     js_join '','' (map (\<lambda>v. if v = JNull then [] else js_to_string v) vs)"
| "js_to_string (JObj _) = ''[object Object]''"

definition js_str :: "jsval option \<Rightarrow> string" where
  "js_str v = (case v of None \<Rightarrow> ''undefined'' | Some x \<Rightarrow> js_to_string x)"

text \<open>\<open>xs.indexOf(v)\<close> for a list of strings, with strict equality: only a
  string can be found.\<close>

fun js_index_of :: "string list \<Rightarrow> jsval option \<Rightarrow> int" where
  "js_index_of [] v = -1"
| "js_index_of (x # xs) v =
     (if v = Some (JStr x) then 0
      else (let i = js_index_of xs v in if i = -1 then -1 else i + 1))"

section \<open>Promises\<close>

text \<open>
  A promise that settles is \<^const>\<open>Some\<close> of a rejection (\<open>Inl\<close>) or a
  resolution (\<open>Inr\<close>); one that never settles is \<^const>\<open>None\<close>.
  \<open>p.then(f)\<close> runs \<open>f\<close> on the resolved value and passes a rejection on.
\<close>

definition pthen :: "('e + 'a) option \<Rightarrow> ('a \<Rightarrow> ('e + 'b) option) \<Rightarrow> ('e + 'b) option" where
  "pthen p f = (case p of None \<Rightarrow> None | Some (Inl e) \<Rightarrow> Some (Inl e) | Some (Inr a) \<Rightarrow> f a)"

lemma pthen_simps [simp]:
  "pthen None f = None"
  "pthen (Some (Inl e)) f = Some (Inl e)"
  "pthen (Some (Inr a)) f = f a"
  by (simp_all add: pthen_def)

lemma pthen_Some_Inr:
  "pthen p f = Some (Inr b) \<longleftrightarrow> (\<exists>a. p = Some (Inr a) \<and> f a = Some (Inr b))"
  by (auto simp: pthen_def split: option.splits sum.splits)

lemma pthen_None:
  "pthen p f = None \<longleftrightarrow> p = None \<or> (\<exists>a. p = Some (Inr a) \<and> f a = None)"
  by (auto simp: pthen_def split: option.splits sum.splits)

section \<open>Generic lemmas\<close>

lemma map_sum_id_Inr [simp]: "map_sum f id r = Inr x \<longleftrightarrow> r = Inr x"
  by (cases r) auto

lemma map_sum_id_Inl: "map_sum f id r = Inl y \<longleftrightarrow> (\<exists>x. r = Inl x \<and> y = f x)"
  by (cases r) auto

lemma js_index_of_found [js_simps]:
  "(js_index_of xs v = -1) \<longleftrightarrow> (\<forall>s. v = Some (JStr s) \<longrightarrow> s \<notin> set xs)"
proof (induction xs)
  case Nil
  then show ?case by simp
next
  case (Cons x xs)
  have "js_index_of xs v \<ge> -1" by (induction xs) (auto simp: Let_def)
  with Cons show ?case by (auto simp: Let_def)
qed

lemma js_truthy_string [js_simps]: "js_truthy (Some (JStr s)) \<longleftrightarrow> s \<noteq> []"
  by simp

lemma js_get_Cons [js_simps]:
  "js_get ((k', v) # kvs) k = (if k = k' then Some v else js_get kvs k)"
  by (simp add: js_get_def)

lemma js_get_Nil [js_simps]: "js_get [] k = None"
  by (simp add: js_get_def)

lemma js_keys_simps [js_simps]:
  "js_keys [] = []" "js_keys ((k, v) # kvs) = k # js_keys kvs"
  by (simp_all add: js_keys_def)

lemma js_get_in_keys: "js_get obj k = Some v \<Longrightarrow> k \<in> set (js_keys obj)"
  by (auto simp: js_get_def js_keys_def dest: map_of_SomeD intro: rev_image_eqI)

lemma js_get_not_in_keys: "k \<notin> set (js_keys obj) \<Longrightarrow> js_get obj k = None"
  by (simp add: js_get_def js_keys_def map_of_eq_None_iff)

lemma remove1_length_less: "x \<in> set xs \<Longrightarrow> length (remove1 x xs) < length xs"
  by (induction xs) auto

lemma set_map_filter: "set (List.map_filter f xs) = {y. \<exists>x \<in> set xs. f x = Some y}"
  by (induction xs) (auto split: option.splits)

lemma map_upd_dom_notin:
  "k \<notin> dom m \<Longrightarrow> dom (m(k \<mapsto> v)) = insert k (dom m)"
  by simp

end
