(* ===== verification/Api_Server.thy ===== *)
theory Api_Server
  imports Prelude
begin

text \<open>
  The HTTP transport (\<open>src/server/api-server.js\<close>, which is not among the
  sources and is modelled from the specification, section 6): the four routes
  under \<open>/api/\<close>, the response envelope \<open>{data: ...}\<close> or
  \<open>{error: {id, message}}\<close> written by \<open>sendValidResponse\<close> and
  \<open>sendErrorResponse\<close>, and the HTTP status of each (200, and 400 for an
  error, as the integration tests expect).
\<close>

datatype response =
    ValidResponse "jsval option"
  | ErrorResponse string string

datatype api_event = StartTestSuite | EndTestSuite | GetSubscription | GetNotificationStatus

definition send_valid_response :: "jsval option \<Rightarrow> response" where
  "send_valid_response data = ValidResponse data"

definition send_error_response :: "string \<Rightarrow> string \<Rightarrow> response" where
  "send_error_response eid msg = ErrorResponse eid msg"

fun response_status :: "response \<Rightarrow> nat" where
  "response_status (ValidResponse _) = 200"
| "response_status (ErrorResponse _ _) = 400"

text \<open>The JSON body; \<open>{data: undefined}\<close> serialises as \<open>{}\<close>.\<close>

fun response_body :: "response \<Rightarrow> jsval" where
  "response_body (ValidResponse None) = JObj []"
| "response_body (ValidResponse (Some d)) = JObj [(''data'', d)]"
| "response_body (ErrorResponse eid msg) =
     JObj [(''error'', JObj [(''id'', JStr eid), (''message'', JStr msg)])]"

fun api_event_name :: "api_event \<Rightarrow> string" where
  "api_event_name StartTestSuite = ''start-test-suite''"
| "api_event_name EndTestSuite = ''end-test-suite''"
| "api_event_name GetSubscription = ''get-subscription''"
| "api_event_name GetNotificationStatus = ''get-notification-status''"

definition api_events :: "api_event list" where
  "api_events = [StartTestSuite, EndTestSuite, GetSubscription, GetNotificationStatus]"

text \<open>Routing of a request path \<open>/api/<name>/\<close> to the event emitted.\<close>

definition api_route :: "string \<Rightarrow> api_event option" where
  "api_route path =
     find (\<lambda>e. path = ''/api/'' @ api_event_name e @ ''/'') api_events"

definition is_error :: "response \<Rightarrow> bool" where
  "is_error r \<longleftrightarrow> (\<exists>eid msg. r = ErrorResponse eid msg)"

definition error_id :: "response \<Rightarrow> string option" where
  "error_id r = (case r of ErrorResponse eid _ \<Rightarrow> Some eid | ValidResponse _ \<Rightarrow> None)"

lemma api_event_name_inj: "api_event_name e = api_event_name e' \<Longrightarrow> e = e'"
  by (cases e; cases e') simp_all

lemma error_id_Some [simp]:
  "error_id r = Some eid \<longleftrightarrow> (\<exists>msg. r = ErrorResponse eid msg)"
  by (cases r) (simp_all add: error_id_def)

lemma send_response_simps [simp]:
  "send_valid_response d = ValidResponse d"
  "send_error_response eid msg = ErrorResponse eid msg"
  by (simp_all add: send_valid_response_def send_error_response_def)

lemma error_status: "is_error r \<longleftrightarrow> response_status r = 400"
  by (cases r) (simp_all add: is_error_def)

lemma api_route_name: "api_route (''/api/'' @ api_event_name e @ ''/'') = Some e"
  by (cases e) (simp_all add: api_route_def api_events_def)

end
