(* ===== verification/Test_Suite.thy ===== *)
theory Test_Suite
  imports Prelude
begin

text \<open>
  A test suite (\<open>src/model/test-suite.js\<close>, not among the sources: modelled
  from the specification, section 4.3). It owns the test instances created
  under it, each the identifier of the WebDriver session that drives it, keyed
  by an instance identifier the suite allocates from a counter. Ending the
  suite quits every session it owns, attempts all of them even when one fails,
  clears the collection and reports the first failure.
\<close>

record test_suite =
  suite_id :: nat
  next_test_instance_id :: nat
  test_instances :: "nat \<rightharpoonup> nat"

definition new_test_suite :: "nat \<Rightarrow> test_suite" where
  "new_test_suite i = \<lparr>suite_id = i, next_test_instance_id = 0, test_instances = Map.empty\<rparr>"

text \<open>\<open>addTestInstance(driver)\<close>: the next identifier, then the counter moves on.\<close>

definition add_test_instance :: "nat \<Rightarrow> test_suite \<Rightarrow> nat \<times> test_suite" where
  "add_test_instance d s =
     (let i = next_test_instance_id s
      in (i, s\<lparr>test_instances := (test_instances s)(i \<mapsto> d),
               next_test_instance_id := Suc i\<rparr>))"

text \<open>\<open>getTestInstance(testId)\<close>: a JavaScript property read; a negative
  number names no instance.\<close>

definition get_test_instance :: "test_suite \<Rightarrow> int \<Rightarrow> nat option" where
  "get_test_instance s i = (if i < 0 then None else test_instances s (nat i))"

text \<open>The sessions in the order \<open>Object.keys\<close> lists integer keys: ascending.\<close>

definition suite_drivers :: "test_suite \<Rightarrow> nat list" where
  "suite_drivers s = List.map_filter (test_instances s) [0..<next_test_instance_id s]"

text \<open>\<open>end()\<close>: quit every session (\<open>kill_error d\<close> is the failure of quitting
  session \<open>d\<close>, if any), all of them attempted, then the collection cleared;
  the result names the sessions quit, the first failure and the suite after.\<close>

definition end_suite ::
  "(nat \<Rightarrow> string option) \<Rightarrow> test_suite \<Rightarrow> nat list \<times> string option \<times> test_suite" where
  "end_suite kill_error s =
     (let ds = suite_drivers s;
          errs = List.map_filter kill_error ds
      in (filter (\<lambda>d. kill_error d = None) ds,
          (case errs of [] \<Rightarrow> None | e # _ \<Rightarrow> Some e),
          s\<lparr>test_instances := Map.empty\<rparr>))"

text \<open>Well-formedness: every instance identifier was allocated by the counter.\<close>

definition suite_wf :: "test_suite \<Rightarrow> bool" where
  "suite_wf s \<longleftrightarrow> (\<forall>i \<in> dom (test_instances s). i < next_test_instance_id s)"

lemma new_test_suite_simps [simp]:
  "suite_id (new_test_suite i) = i" "next_test_instance_id (new_test_suite i) = 0"
  "test_instances (new_test_suite i) = Map.empty"
  by (simp_all add: new_test_suite_def)

lemma suite_wf_new [simp]: "suite_wf (new_test_suite i)"
  by (simp add: suite_wf_def new_test_suite_def)

lemma add_test_instance_wf:
  "suite_wf s \<Longrightarrow> add_test_instance d s = (i, s') \<Longrightarrow> suite_wf s'"
  by (auto simp: suite_wf_def add_test_instance_def Let_def dom_def less_Suc_eq split: if_splits)

lemma add_test_instance_fresh:
  "suite_wf s \<Longrightarrow> add_test_instance d s = (i, s') \<Longrightarrow> test_instances s i = None"
  by (auto simp: suite_wf_def add_test_instance_def Let_def)

lemma add_test_instance_simps [simp]:
  "fst (add_test_instance d s) = next_test_instance_id s"
  "test_instances (snd (add_test_instance d s)) = (test_instances s)(next_test_instance_id s \<mapsto> d)"
  "next_test_instance_id (snd (add_test_instance d s)) = Suc (next_test_instance_id s)"
  "suite_id (snd (add_test_instance d s)) = suite_id s"
  by (simp_all add: add_test_instance_def Let_def)

lemma set_suite_drivers:
  "suite_wf s \<Longrightarrow> set (suite_drivers s) = ran (test_instances s)"
  by (auto simp: suite_drivers_def set_map_filter suite_wf_def ran_def domI)

lemma end_suite_simps [simp]:
  "test_instances (snd (snd (end_suite k s))) = Map.empty"
  "suite_id (snd (snd (end_suite k s))) = suite_id s"
  "next_test_instance_id (snd (snd (end_suite k s))) = next_test_instance_id s"
  by (simp_all add: end_suite_def Let_def)

lemma end_suite_quit:
  "end_suite k s = (ds, err, s') \<Longrightarrow> set ds = {d \<in> set (suite_drivers s). k d = None}"
  by (auto simp: end_suite_def Let_def)

lemma end_suite_error:
  "end_suite k s = (ds, err, s') \<Longrightarrow> err = None \<longleftrightarrow> (\<forall>d \<in> set (suite_drivers s). k d = None)"
  by (auto simp: end_suite_def Let_def map_filter_def filter_empty_conv split: list.splits)

lemma end_suite_quit_drivers: "set (fst (end_suite k s)) \<subseteq> set (suite_drivers s)"
  by (auto simp: end_suite_def Let_def)

end
