(* ===== verification/Browser_Session.thy ===== *)
theory Browser_Session
  imports Prelude
begin

text \<open>
  The browser-automation capability the service drives (the WebDriver of
  \<open>selenium-webdriver\<close>, an external library: modelled from the
  specification, section 4.1, and from the behaviour the code relies on).
  A session is a record over an abstract page type \<open>'p\<close>: whether it has been
  quit, the URL it shows and the state of the page. A script run in the page
  (\<open>executeScript\<close>) is a function from the page to a \<open>TypeError\<close> or a
  result and the page afterwards. The page changes on its own between polls,
  driven by the in-page harness: a \<open>harness\<close> is the change over the poll
  that starts at a given time (in milliseconds).

  \<open>driver.wait(condition, timeout)\<close> is \<open>sel_wait\<close>: it evaluates the
  condition; a rejection rejects the wait, a truthy value resolves it, a
  falsy one polls again unless the elapsed time has reached a non-zero
  timeout. A timeout of 0 (or none, as in \<open>driver.wait(condition)\<close>) never
  expires, so the wait may never settle: it is a \<^theory_text>\<open>partial_function\<close>
  into \<open>option\<close>, and \<^const>\<open>None\<close> is the wait that never settles.
\<close>

record 'p browser =
  br_quit :: bool
  br_url :: string
  br_page :: 'p

type_synonym ('p, 'a) script = "'p \<Rightarrow> string + ('a \<times> 'p)"

type_synonym 'p harness = "nat \<Rightarrow> 'p \<Rightarrow> 'p"

datatype drv_error = WaitTimeout nat | DriverError string

fun drv_error_message :: "drv_error \<Rightarrow> string" where
  "drv_error_message (WaitTimeout n) = ''Wait timed out after '' @ str_of_nat n @ ''ms''"
| "drv_error_message (DriverError m) = m"

definition no_session :: string where
  "no_session = ''This driver instance does not have a valid session ID''"

definition execute_script :: "'p browser \<Rightarrow> ('p, 'a) script \<Rightarrow> drv_error + ('a \<times> 'p browser)" where
  "execute_script b s =
     (if br_quit b then Inl (DriverError no_session)
      else (case s (br_page b) of
              Inl e \<Rightarrow> Inl (DriverError e)
            | Inr (v, p') \<Rightarrow> Inr (v, b\<lparr>br_page := p'\<rparr>)))"

text \<open>\<open>driver.get(url)\<close>: the page is replaced by a freshly loaded one.\<close>

definition navigate :: "'p browser \<Rightarrow> string \<Rightarrow> 'p \<Rightarrow> drv_error + 'p browser" where
  "navigate b url blank =
     (if br_quit b then Inl (DriverError no_session)
      else Inr (b\<lparr>br_url := url, br_page := blank\<rparr>))"

text \<open>\<open>driver.quit()\<close>: idempotent.\<close>

definition quit :: "'p browser \<Rightarrow> 'p browser" where
  "quit b = b\<lparr>br_quit := True\<rparr>"

definition advance :: "'p harness \<Rightarrow> nat \<Rightarrow> 'p browser \<Rightarrow> 'p browser" where
  "advance h t b = (if br_quit b then b else b\<lparr>br_page := h t (br_page b)\<rparr>)"

record poll =
  poll_latency :: nat
  poll_pause :: nat
  poll_timeout :: nat

partial_function (option) sel_wait ::
  "'p harness \<Rightarrow> ('p, bool) script \<Rightarrow> poll \<Rightarrow> nat \<Rightarrow> nat \<Rightarrow> 'p browser
     \<Rightarrow> (drv_error + nat \<times> 'p browser) option"
where
  "sel_wait h cond cfg start t b =
     (case execute_script b cond of
        Inl e \<Rightarrow> Some (Inl e)
      | Inr (v, b') \<Rightarrow>
          (if v then Some (Inr (t + poll_latency cfg, b'))
           else
             (let t' = t + poll_latency cfg + poll_pause cfg
              in if poll_timeout cfg \<noteq> 0 \<and> start + poll_timeout cfg \<le> t'
                 then Some (Inl (WaitTimeout (poll_timeout cfg)))
                 else sel_wait h cond cfg start t' (advance h t b'))))"

declare sel_wait.simps [code]

section \<open>Lemmas on sessions\<close>

lemma execute_script_quit [simp]:
  "br_quit b \<Longrightarrow> execute_script b s = Inl (DriverError no_session)"
  by (simp add: execute_script_def)

lemma execute_script_Inr:
  "execute_script b s = Inr (v, b') \<longleftrightarrow>
     \<not> br_quit b \<and> s (br_page b) = Inr (v, br_page b') \<and> b' = b\<lparr>br_page := br_page b'\<rparr>"
  by (auto simp: execute_script_def split: sum.splits)

lemma execute_script_frame:
  "execute_script b s = Inr (v, b') \<Longrightarrow> br_quit b' = br_quit b \<and> br_url b' = br_url b"
  by (auto simp: execute_script_def split: if_splits sum.splits)

lemma execute_script_live:
  "execute_script b s = Inr (v, b') \<Longrightarrow> \<not> br_quit b \<and> \<not> br_quit b'"
  by (auto simp: execute_script_def split: if_splits sum.splits)

lemma advance_frame [simp]:
  "br_quit (advance h t b) = br_quit b" "br_url (advance h t b) = br_url b"
  by (simp_all add: advance_def)

lemma quit_simps [simp]: "br_quit (quit b)" "br_url (quit b) = br_url b"
  by (simp_all add: quit_def)

text \<open>Partial correctness of a wait: an invariant of the polled states that
  the falsy polls keep holds of the poll that resolved the wait.\<close>

lemma sel_wait_rule:
  assumes ret: "sel_wait h cond cfg start t b = Some (Inr (t', b'))"
    and init: "I t b"
    and keep: "\<And>t b b1. I t b \<Longrightarrow> execute_script b cond = Inr (False, b1) \<Longrightarrow>
      I (t + poll_latency cfg + poll_pause cfg) (advance h t b1)"
  shows "\<exists>t0 b0. I t0 b0 \<and> execute_script b0 cond = Inr (True, b') \<and> t' = t0 + poll_latency cfg"
proof -
  let ?Q = "\<lambda>r. \<forall>t' b'. r = Inr (t', b') \<longrightarrow>
    (\<exists>t0 b0. I t0 b0 \<and> execute_script b0 cond = Inr (True, b') \<and> t' = t0 + poll_latency cfg)"
  have "h' = h \<longrightarrow> c' = cond \<longrightarrow> cfg' = cfg \<longrightarrow> s' = start \<longrightarrow> I t b \<longrightarrow> ?Q r"
    if "sel_wait h' c' cfg' s' t b = Some r" for h' c' cfg' s' r
  proof (rule sel_wait.raw_induct
      [where P = "\<lambda>h' c' cfg' s' t b r. h' = h \<longrightarrow> c' = cond \<longrightarrow> cfg' = cfg \<longrightarrow> s' = start
         \<longrightarrow> I t b \<longrightarrow> ?Q r", OF _ that])
    fix f :: "'a harness \<Rightarrow> ('a, bool) script \<Rightarrow> poll \<Rightarrow> nat \<Rightarrow> nat \<Rightarrow> 'a browser
       \<Rightarrow> (drv_error + nat \<times> 'a browser) option"
    fix h' c' cfg' s' t b r
    assume IH: "\<And>h' c' cfg' s' t b r. f h' c' cfg' s' t b = Some r \<Longrightarrow>
      h' = h \<longrightarrow> c' = cond \<longrightarrow> cfg' = cfg \<longrightarrow> s' = start \<longrightarrow> I t b \<longrightarrow> ?Q r"
    assume step: "(case execute_script b c' of Inl e \<Rightarrow> Some (Inl e)
        | Inr (v, b') \<Rightarrow> (if v then Some (Inr (t + poll_latency cfg', b'))
             else (let t' = t + poll_latency cfg' + poll_pause cfg'
                in if poll_timeout cfg' \<noteq> 0 \<and> s' + poll_timeout cfg' \<le> t'
                   then Some (Inl (WaitTimeout (poll_timeout cfg')))
                   else f h' c' cfg' s' t' (advance h' t b')))) = Some r"
    show "h' = h \<longrightarrow> c' = cond \<longrightarrow> cfg' = cfg \<longrightarrow> s' = start \<longrightarrow> I t b \<longrightarrow> ?Q r"
    proof (intro impI)
      assume eqs: "h' = h" "c' = cond" "cfg' = cfg" "s' = start" and inv: "I t b"
      show "?Q r"
      proof (cases "execute_script b cond")
        case (Inl e)
        with step eqs show ?thesis by auto
      next
        case (Inr vb)
        then obtain v b1 where ex: "execute_script b cond = Inr (v, b1)" by (cases vb) auto
        show ?thesis
        proof (cases v)
          case True
          with step eqs ex inv show ?thesis by auto
        next
          case False
          with step eqs ex have "r = Inl (WaitTimeout (poll_timeout cfg)) \<or>
              f h cond cfg start (t + poll_latency cfg + poll_pause cfg) (advance h t b1) = Some r"
            by (auto simp: Let_def split: if_splits)
          moreover have "I (t + poll_latency cfg + poll_pause cfg) (advance h t b1)"
            using keep [OF inv] ex False by simp
          ultimately show ?thesis using IH by blast
        qed
      qed
    qed
  qed
  with ret init show ?thesis by blast
qed

lemma sel_wait_frame:
  assumes "sel_wait h cond cfg start t (b :: 'p browser) = Some (Inr (t', b'))"
  shows "br_quit b' = br_quit b \<and> br_url b' = br_url b \<and> t + poll_latency cfg \<le> t'"
proof -
  define I where "I = (\<lambda>t0 (b0 :: 'p browser). br_quit b0 = br_quit b \<and> br_url b0 = br_url b \<and> t \<le> t0)"
  have "\<exists>t0 b0. I t0 b0 \<and> execute_script b0 cond = Inr (True, b') \<and> t' = t0 + poll_latency cfg"
  proof (rule sel_wait_rule [OF assms])
    show "I t b" by (simp add: I_def)
  next
    fix t0 b0 b1
    assume inv: "I t0 b0" and ex: "execute_script b0 cond = Inr (False, b1)"
    from ex have "br_quit b1 = br_quit b0 \<and> br_url b1 = br_url b0" by (rule execute_script_frame)
    with inv show "I (t0 + poll_latency cfg + poll_pause cfg) (advance h t0 b1)"
      unfolding I_def by (simp only: advance_frame) (intro conjI refl; linarith)
  qed
  then obtain t0 b0 where "I t0 b0" and ex: "execute_script b0 cond = Inr (True, b')"
      and "t' = t0 + poll_latency cfg"
    by blast
  with execute_script_frame [OF ex] show ?thesis by (simp add: I_def)
qed

text \<open>A wait with a timeout always settles, provided a poll takes time.\<close>

lemma sel_wait_terminates:
  assumes tmo: "0 < poll_timeout cfg" and cost: "0 < poll_latency cfg + poll_pause cfg"
  shows "\<exists>r. sel_wait h cond cfg start t b = Some r"
proof (induction "start + poll_timeout cfg - t" arbitrary: t b rule: less_induct)
  case less
  show ?case
  proof (cases "execute_script b cond")
    case (Inl e)
    then show ?thesis by (simp add: sel_wait.simps [of h cond cfg start t b])
  next
    case (Inr vb)
    then obtain v b1 where ex: "execute_script b cond = Inr (v, b1)" by (cases vb) auto
    let ?t1 = "t + poll_latency cfg + poll_pause cfg"
    show ?thesis
    proof (cases "v \<or> start + poll_timeout cfg \<le> ?t1")
      case True
      with ex tmo show ?thesis by (auto simp: sel_wait.simps [of h cond cfg start t b])
    next
      case False
      with cost have "start + poll_timeout cfg - ?t1 < start + poll_timeout cfg - t" by linarith
      then obtain r where "sel_wait h cond cfg start ?t1 (advance h t b1) = Some r"
        using less by blast
      with ex False show ?thesis by (auto simp: sel_wait.simps [of h cond cfg start t b])
    qed
  qed
qed

text \<open>A wait with a timeout whose condition stays falsy times out.\<close>

lemma sel_wait_times_out:
  assumes tmo: "0 < poll_timeout cfg" and cost: "0 < poll_latency cfg + poll_pause cfg"
    and init: "I b"
    and stuck: "\<And>t b. I b \<Longrightarrow> \<exists>b1. execute_script b cond = Inr (False, b1) \<and> I (advance h t b1)"
  shows "sel_wait h cond cfg start t b = Some (Inl (WaitTimeout (poll_timeout cfg)))"
  using init
proof (induction "start + poll_timeout cfg - t" arbitrary: t b rule: less_induct)
  case less
  from stuck [OF less.prems] obtain b1 where ex: "execute_script b cond = Inr (False, b1)"
      and inv: "I (advance h t b1)" by blast
  let ?t1 = "t + poll_latency cfg + poll_pause cfg"
  show ?case
  proof (cases "start + poll_timeout cfg \<le> ?t1")
    case True
    with ex tmo show ?thesis by (simp add: sel_wait.simps [of h cond cfg start t b])
  next
    case False
    with cost have "start + poll_timeout cfg - ?t1 < start + poll_timeout cfg - t" by linarith
    with inv have "sel_wait h cond cfg start ?t1 (advance h t b1) = Some (Inl (WaitTimeout (poll_timeout cfg)))"
      using less.hyps by blast
    with ex False show ?thesis by (simp add: sel_wait.simps [of h cond cfg start t b])
  qed
qed

text \<open>A wait without timeout whose condition stays falsy never settles:
  \<open>I\<close> is a property of the session that every falsy poll and the page's
  progress keep.\<close>

lemma sel_wait_diverges:
  assumes tmo: "poll_timeout cfg = 0" and init: "I b"
    and stuck: "\<And>t b. I b \<Longrightarrow> \<exists>b1. execute_script b cond = Inr (False, b1) \<and> I (advance h t b1)"
  shows "sel_wait h cond cfg start t b = None"
proof (rule ccontr)
  assume "sel_wait h cond cfg start t b \<noteq> None"
  then obtain r where ret: "sel_wait h cond cfg start t b = Some r" by blast
  have "h' = h \<longrightarrow> c' = cond \<longrightarrow> cfg' = cfg \<longrightarrow> I b' \<longrightarrow> False"
    if "sel_wait h' c' cfg' s' t' b' = Some r'" for h' c' cfg' s' t' b' r'
  proof (rule sel_wait.raw_induct
      [where P = "\<lambda>h' c' cfg' s' t b r. h' = h \<longrightarrow> c' = cond \<longrightarrow> cfg' = cfg \<longrightarrow> I b \<longrightarrow> False",
       OF _ that])
    fix f :: "'a harness \<Rightarrow> ('a, bool) script \<Rightarrow> poll \<Rightarrow> nat \<Rightarrow> nat \<Rightarrow> 'a browser
       \<Rightarrow> (drv_error + nat \<times> 'a browser) option"
    fix h' c' cfg' s' t b r
    assume IH: "\<And>h' c' cfg' s' t b r. f h' c' cfg' s' t b = Some r \<Longrightarrow>
      h' = h \<longrightarrow> c' = cond \<longrightarrow> cfg' = cfg \<longrightarrow> I b \<longrightarrow> False"
    assume step: "(case execute_script b c' of Inl e \<Rightarrow> Some (Inl e)
        | Inr (v, b') \<Rightarrow> (if v then Some (Inr (t + poll_latency cfg', b'))
             else (let t' = t + poll_latency cfg' + poll_pause cfg'
                in if poll_timeout cfg' \<noteq> 0 \<and> s' + poll_timeout cfg' \<le> t'
                   then Some (Inl (WaitTimeout (poll_timeout cfg')))
                   else f h' c' cfg' s' t' (advance h' t b')))) = Some r"
    show "h' = h \<longrightarrow> c' = cond \<longrightarrow> cfg' = cfg \<longrightarrow> I b \<longrightarrow> False"
    proof (intro impI)
      assume eqs: "h' = h" "c' = cond" "cfg' = cfg" and inv: "I b"
      from stuck [OF inv] obtain b1 where ex: "execute_script b cond = Inr (False, b1)"
          and inv': "I (advance h t b1)" by blast
      from step eqs ex tmo have "f h cond cfg s' (t + poll_latency cfg + poll_pause cfg) (advance h t b1) = Some r"
        by (simp add: Let_def)
      with inv' show False using IH by blast
    qed
  qed
  with ret init show False by blast
qed

end
