(* ===== verification/Test_Instance.thy ===== *)
theory Test_Instance
  imports Browser_Session
begin

text \<open>
  One test instance: a browser session driven through the push-subscription
  protocol of \<open>initiateTestInstance\<close> (\<open>src/src/index.js\<close>, lines 281 to 361)
  and polled for received messages by \<open>getNotificationStatus\<close> (lines 217
  to 238). The page is the object \<open>window.PUSH_TESTING_SERVICE\<close> the in-page
  harness exposes (specification, section 6), \<^const>\<open>None\<close> while the
  harness is not loaded. Every script the code runs in the page is one
  definition below, and the two promise chains are \<open>subscribe_chain\<close> and
  \<open>poll_messages\<close>.
\<close>

record pts_state =
  pts_loaded :: bool
  pts_started :: bool
  pts_sw_registered :: "jsval option"
  pts_subscription :: "jsval option"
  pts_received :: "string list"

type_synonym page = "pts_state option"

type_synonym session = "page browser"

datatype thrown = Coded string jsval | Failure string

section \<open>Scripts run in the page\<close>

definition pts_read :: "page \<Rightarrow> string \<Rightarrow> (pts_state \<Rightarrow> 'a) \<Rightarrow> string + 'a" where
  "pts_read p k f =
     (case p of None \<Rightarrow> Inl (''Cannot read property '' @ k @ '' of undefined'') | Some s \<Rightarrow> Inr (f s))"

text \<open>\<open>window.PUSH_TESTING_SERVICE && window.PUSH_TESTING_SERVICE.loaded\<close>\<close>

definition harness_loaded :: "(page, bool) script" where
  "harness_loaded p = Inr (case p of None \<Rightarrow> False | Some s \<Rightarrow> pts_loaded s, p)"

text \<open>\<open>window.PUSH_TESTING_SERVICE.start()\<close>\<close>

definition harness_start :: "(page, unit) script" where
  "harness_start p =
     (case p of None \<Rightarrow> Inl ''Cannot read property start of undefined''
      | Some s \<Rightarrow> Inr ((), Some (s\<lparr>pts_started := True\<rparr>)))"

text \<open>\<open>(typeof window.PUSH_TESTING_SERVICE.swRegistered) !== 'undefined'\<close>\<close>

definition sw_registered_defined :: "(page, bool) script" where
  "sw_registered_defined p =
     map_sum id (\<lambda>v. (js_typeof v \<noteq> ''undefined'', p)) (pts_read p ''swRegistered'' pts_sw_registered)"

definition read_sw_registered :: "(page, jsval option) script" where
  "read_sw_registered p = map_sum id (\<lambda>v. (v, p)) (pts_read p ''swRegistered'' pts_sw_registered)"

text \<open>\<open>(typeof window.PUSH_TESTING_SERVICE.subscription) !== 'undefined'\<close>\<close>

definition subscription_defined :: "(page, bool) script" where
  "subscription_defined p =
     map_sum id (\<lambda>v. (js_typeof v \<noteq> ''undefined'', p)) (pts_read p ''subscription'' pts_subscription)"

definition read_subscription :: "(page, jsval option) script" where
  "read_subscription p = map_sum id (\<lambda>v. (v, p)) (pts_read p ''subscription'' pts_subscription)"

text \<open>\<open>window.PUSH_TESTING_SERVICE.receivedMessages.length > 0\<close>\<close>

definition has_received_messages :: "(page, bool) script" where
  "has_received_messages p =
     map_sum id (\<lambda>ms. (0 < length ms, p)) (pts_read p ''receivedMessages'' pts_received)"

text \<open>Read the buffer, then replace it by \<open>[]\<close>: the drain.\<close>

definition drain_received_messages :: "(page, string list) script" where
  "drain_received_messages p =
     (case p of None \<Rightarrow> Inl ''Cannot read property receivedMessages of undefined''
      | Some s \<Rightarrow> Inr (pts_received s, Some (s\<lparr>pts_received := []\<rparr>)))"

section \<open>The subscription protocol\<close>

text \<open>The checks of the two results the harness reports (lines 322 to 331
  and 347 to 359): a truthy \<open>error\<close> property is thrown as a coded error.\<close>

definition check_sw_registered :: "jsval option \<Rightarrow> thrown + unit" where
  \<open>check_sw_registered sw =
     (case js_prop sw ''error'' of
        Inl e \<Rightarrow> Inl (Failure e)
      | Inr err \<Rightarrow>
          (if js_truthy err
           then Inl (Coded ''unable_to_reg_service_worker''
                  (JStr (''There was an error when registering the service worker. "''
                         @ js_str err @ ''".'')))
           else Inr ()))\<close>

definition test_details :: "nat \<Rightarrow> jsval option \<Rightarrow> jsval" where
  "test_details tid sub =
     JObj ((''testId'', JNum (int tid)) # (case sub of None \<Rightarrow> [] | Some v \<Rightarrow> [(''subscription'', v)]))"

definition check_subscription :: "nat \<Rightarrow> jsval option \<Rightarrow> thrown + jsval" where
  "check_subscription tid sub =
     (case js_prop sub ''error'' of
        Inl e \<Rightarrow> Inl (Failure e)
      | Inr None \<Rightarrow> Inr (test_details tid sub)
      | Inr (Some err) \<Rightarrow>
          (if js_truthy (Some err) then Inl (Coded ''unable_to_get_subscription'' err)
           else Inr (test_details tid sub)))"

text \<open>The query string built from the optional arguments (lines 285 to 292).\<close>

definition url_get_args :: "(string \<times> string) list \<Rightarrow> string" where
  "url_get_args opt =
     (if opt = [] then [] else ''?'' @ js_join ''&'' (map (\<lambda>(k, v). k @ ''='' @ v) opt))"

definition lift_drv :: "(drv_error + 'a) option \<Rightarrow> (thrown + 'a) option" where
  "lift_drv r = map_option (map_sum (\<lambda>e. Failure (drv_error_message e)) id) r"

text \<open>\<open>driver.wait(condition)\<close> without a timeout.\<close>

definition harness_poll :: "nat \<Rightarrow> poll" where
  "harness_poll lat = \<lparr>poll_latency = lat, poll_pause = 0, poll_timeout = 0\<rparr>"

text \<open>
  The chain of lines 294 to 360 from the navigation on, for a session \<open>b\<close>
  registered as test \<open>tid\<close>, the harness \<open>h\<close>, a script latency \<open>lat\<close> and
  the start time \<open>t\<close>: it resolves to the test details, the time and the
  session after, or rejects with what was thrown, or never settles.
\<close>

definition subscribe_chain ::
  "page harness \<Rightarrow> nat \<Rightarrow> string \<Rightarrow> (string \<times> string) list \<Rightarrow> nat \<Rightarrow> nat \<Rightarrow> session
     \<Rightarrow> (thrown + jsval \<times> nat \<times> session) option" where
  "subscribe_chain h lat url opt tid t b =
     pthen (lift_drv (Some (navigate b (url @ ''/'' @ url_get_args opt) None))) (\<lambda>b.
     pthen (lift_drv (sel_wait h harness_loaded (harness_poll lat) t t b)) (\<lambda>(t, b).
     pthen (lift_drv (Some (execute_script b harness_start))) (\<lambda>(_, b).
     pthen (lift_drv (sel_wait h sw_registered_defined (harness_poll lat) t t b)) (\<lambda>(t, b).
     pthen (lift_drv (Some (execute_script b read_sw_registered))) (\<lambda>(sw, b).
     pthen (Some (check_sw_registered sw)) (\<lambda>_.
     pthen (lift_drv (sel_wait h subscription_defined (harness_poll lat) t t b)) (\<lambda>(t, b).
     pthen (lift_drv (Some (execute_script b read_subscription))) (\<lambda>(sub, b).
     pthen (Some (check_subscription tid sub)) (\<lambda>details.
     Some (Inr (details, t, b)))))))))))"

section \<open>Polling for messages\<close>

text \<open>The condition of lines 218 to 231: when the buffer is empty it sleeps
  500 ms before answering; the wait gives up after 60000 ms.\<close>

definition notification_poll :: "nat \<Rightarrow> poll" where
  "notification_poll lat = \<lparr>poll_latency = lat, poll_pause = 500, poll_timeout = 60000\<rparr>"

definition poll_messages ::
  "page harness \<Rightarrow> nat \<Rightarrow> nat \<Rightarrow> session \<Rightarrow> (drv_error + string list \<times> nat \<times> session) option" where
  "poll_messages h lat t b =
     pthen (sel_wait h has_received_messages (notification_poll lat) t t b) (\<lambda>(t, b).
       Some (map_sum id (\<lambda>(ms, b). (ms, t, b)) (execute_script b drain_received_messages)))"

section \<open>Lemmas on the scripts and the poll\<close>

lemma has_received_messages_Inr:
  "has_received_messages p = Inr (v, p') \<longleftrightarrow> (\<exists>s. p = Some s \<and> p' = p \<and> v = (pts_received s \<noteq> []))"
  by (auto simp: has_received_messages_def pts_read_def split: option.splits)

lemma drain_received_messages_Some [simp]:
  "drain_received_messages (Some s) = Inr (pts_received s, Some (s\<lparr>pts_received := []\<rparr>))"
  by (simp add: drain_received_messages_def)

lemma notification_poll_simps [simp]:
  "poll_latency (notification_poll lat) = lat"
  "poll_pause (notification_poll lat) = 500"
  "poll_timeout (notification_poll lat) = 60000"
  by (simp_all add: notification_poll_def)

lemma poll_messages_settles: "\<exists>r. poll_messages h lat t b = Some r"
proof -
  have "\<exists>r. sel_wait h has_received_messages (notification_poll lat) t t b = Some r"
    by (rule sel_wait_terminates) simp_all
  then obtain r where "sel_wait h has_received_messages (notification_poll lat) t t b = Some r"
    by blast
  then show ?thesis
    by (cases r) (auto simp: poll_messages_def)
qed

text \<open>What a resolved poll returns is the whole buffer of the page it
  stopped at, never empty, and the buffer is empty afterwards.\<close>

lemma poll_messages_drains:
  assumes "poll_messages h lat t b = Some (Inr (ms, t', b'))"
  shows "\<exists>b1 s. \<not> br_quit b1 \<and> br_page b1 = Some s \<and> ms = pts_received s \<and> ms \<noteq> [] \<and>
           b' = b1\<lparr>br_page := Some (s\<lparr>pts_received := []\<rparr>)\<rparr>"
proof -
  from assms obtain t1 b1 where w: "sel_wait h has_received_messages (notification_poll lat) t t b = Some (Inr (t1, b1))"
      and d: "map_sum id (\<lambda>(ms, b). (ms, t1, b)) (execute_script b1 drain_received_messages) = Inr (ms, t', b')"
    by (auto simp: poll_messages_def pthen_Some_Inr)
  from sel_wait_rule [where I = "\<lambda>_ _. True", OF w] obtain b0 where
      "execute_script b0 has_received_messages = Inr (True, b1)" by auto
  then obtain s where q: "\<not> br_quit b1" and pg: "br_page b1 = Some s" and ne: "pts_received s \<noteq> []"
    by (auto simp: execute_script_Inr has_received_messages_Inr)
  from d q pg have "ms = pts_received s" and "b' = b1\<lparr>br_page := Some (s\<lparr>pts_received := []\<rparr>)\<rparr>"
    by (auto simp: execute_script_def)
  with q pg ne show ?thesis by blast
qed

lemma poll_messages_immediate:
  assumes "\<not> br_quit b" and "br_page b = Some s" and "pts_received s \<noteq> []"
  shows "poll_messages h lat t b =
           Some (Inr (pts_received s, t + lat, b\<lparr>br_page := Some (s\<lparr>pts_received := []\<rparr>)\<rparr>))"
  using assms
  by (simp add: poll_messages_def sel_wait.simps [of h _ _ t t b] execute_script_def
                has_received_messages_def pts_read_def)

text \<open>A page whose buffer is empty and stays empty makes the poll time out.\<close>

lemma poll_messages_timeout:
  assumes "\<not> br_quit b" and "br_page b = Some s" and "pts_received s = []"
    and keep: "\<forall>t (q :: pts_state). pts_received q = [] \<longrightarrow> (\<exists>q'. h t (Some q) = Some q' \<and> pts_received q' = [])"
  shows "poll_messages h lat t b = Some (Inl (WaitTimeout 60000))"
proof -
  let ?I = "\<lambda>b :: session. \<not> br_quit b \<and> (\<exists>q. br_page b = Some q \<and> pts_received q = [])"
  have "sel_wait h has_received_messages (notification_poll lat) t t b =
          Some (Inl (WaitTimeout (poll_timeout (notification_poll lat))))"
  proof (rule sel_wait_times_out [where I = ?I])
    show "?I b" using assms by blast
  next
    fix t b
    assume "?I b"
    then obtain q where nq: "\<not> br_quit b" and pq: "br_page b = Some q" and eq: "pts_received q = []"
      by blast
    from keep eq obtain q' where "h t (Some q) = Some q'" and "pts_received q' = []" by blast
    with nq pq eq show "\<exists>b1. execute_script b has_received_messages = Inr (False, b1) \<and> ?I (advance h t b1)"
      by (simp add: execute_script_def has_received_messages_def pts_read_def advance_def)
  qed simp_all
  then show ?thesis by (simp add: poll_messages_def)
qed

lemma check_subscription_Inr: "check_subscription tid sub = Inr d \<Longrightarrow> d = test_details tid sub"
  by (auto simp: check_subscription_def split: sum.splits option.splits if_splits)

lemma subscribe_chain_details:
  "subscribe_chain h lat url opt tid t b = Some (Inr (details, t', b')) \<Longrightarrow> \<exists>sub. details = test_details tid sub"
  by (auto simp: subscribe_chain_def pthen_Some_Inr lift_drv_def dest!: check_subscription_Inr)

lemma subscribe_chain_harness_absent:
  assumes live: "\<not> br_quit b" and absent: "\<And>t. h t None = None"
  shows "subscribe_chain h lat url opt tid t b = None"
proof -
  define I where "I = (\<lambda>b :: session. \<not> br_quit b \<and> br_page b = None)"
  let ?b1 = "b\<lparr>br_url := url @ ''/'' @ url_get_args opt, br_page := None\<rparr>"
  have nav: "navigate b (url @ ''/'' @ url_get_args opt) None = Inr ?b1"
    using live by (simp add: navigate_def)
  have "sel_wait h harness_loaded (harness_poll lat) t t ?b1 = None"
  proof (rule sel_wait_diverges [where I = I])
    show "poll_timeout (harness_poll lat) = 0" by (simp add: harness_poll_def)
    show "I ?b1" using live by (simp add: I_def)
    fix t' b' assume "I b'"
    then have "execute_script b' harness_loaded = Inr (False, b') \<and> I (advance h t' b')"
      using absent by (simp add: I_def execute_script_def harness_loaded_def advance_def)
    then show "\<exists>b1. execute_script b' harness_loaded = Inr (False, b1) \<and> I (advance h t' b1)" by blast
  qed
  then show ?thesis unfolding subscribe_chain_def nav by (simp add: lift_drv_def)
qed

end
