(* ===== verification/Wpts.thy ===== *)
theory Wpts
  imports Api_Server Test_Suite Test_Instance
begin

text \<open>
  The service object \<open>WPTS\<close> of \<open>src/src/index.js\<close>: its fields, its
  constructor, the list of browser downloads of \<open>downloadBrowsers\<close>,
  \<open>startTestSuite\<close>, and the validation of request arguments
  (\<open>missingRequiredArgs\<close>, \<open>validTestSuiteId\<close>, \<open>validTestId\<close> and the
  checks of \<open>getSubscription\<close>). A validator that sends an error response
  and returns \<open>false\<close> in the code returns \<open>Inl\<close> of that response here,
  and \<open>Inr\<close> of what it established when the request may go on.
\<close>

record wpts =
  available_test_suite_id :: nat
  test_suites :: "nat \<rightharpoonup> test_suite"
  supported_browsers :: "string list"
  supported_browser_versions :: "string list"
  api_url :: string

text \<open>A browser as \<open>seleniumAssistant.getLocalBrowser\<close> describes it.\<close>

record browser_info =
  bi_id :: string
  bi_version :: int

definition default_browsers :: "string list" where
  "default_browsers = [''chrome'', ''firefox'']"

definition default_browser_versions :: "string list" where
  "default_browser_versions = [''stable'', ''beta'', ''unstable'']"

text \<open>\<open>new WPTS(port, browsers, browserVersions)\<close>: a falsy port means 8090,
  an absent list the default one (an empty array is truthy and kept).\<close>

definition new_wpts :: "nat \<Rightarrow> string list option \<Rightarrow> string list option \<Rightarrow> wpts" where
  "new_wpts port browsers versions =
     \<lparr>available_test_suite_id = 0,
      test_suites = Map.empty,
      supported_browsers = (case browsers of None \<Rightarrow> default_browsers | Some bs \<Rightarrow> bs),
      supported_browser_versions = (case versions of None \<Rightarrow> default_browser_versions | Some vs \<Rightarrow> vs),
      api_url = ''http://localhost:'' @ str_of_nat (if port = 0 then 8090 else port)\<rparr>"

text \<open>\<open>downloadBrowsers\<close>: one download per supported browser and version,
  except Chrome unstable.\<close>

definition download_browsers :: "wpts \<Rightarrow> (string \<times> string) list" where
  "download_browsers st =
     concat (map (\<lambda>b. List.map_filter
                     (\<lambda>v. if b = ''chrome'' \<and> v = ''unstable'' then None else Some (b, v))
                     (supported_browser_versions st))
               (supported_browsers st))"

text \<open>\<open>startTestSuite\<close>: the next identifier names a new suite.\<close>

definition start_test_suite :: "wpts \<Rightarrow> response \<times> wpts" where
  "start_test_suite st =
     (let i = available_test_suite_id st
      in (send_valid_response (Some (JObj [(''testSuiteId'', JNum (int i))])),
          st\<lparr>available_test_suite_id := Suc i,
             test_suites := (test_suites st)(i \<mapsto> new_test_suite i)\<rparr>))"

section \<open>Validation of arguments\<close>

text \<open>The \<open>requiredFields\<close> of each handler (lines 110, 131 and 205).\<close>

fun required_fields :: "api_event \<Rightarrow> string list" where
  "required_fields StartTestSuite = []"
| "required_fields EndTestSuite = [''testSuiteId'']"
| "required_fields GetSubscription = [''testSuiteId'', ''browserName'', ''browserVersion'']"
| "required_fields GetNotificationStatus = [''testSuiteId'', ''testId'']"

text \<open>The loop of \<open>missingRequiredArgs\<close>: every key of the arguments that is
  still required and holds a value other than \<open>null\<close> is struck out.\<close>

fun strike_present :: "js_object \<Rightarrow> string list \<Rightarrow> string list" where
  "strike_present [] req = req"
| "strike_present ((k, v) # kvs) req =
     strike_present kvs (if k \<in> set req \<and> v \<noteq> JNull then remove1 k req else req)"

definition missing_required_args :: "js_object \<Rightarrow> string list \<Rightarrow> response option" where
  "missing_required_args args req =
     (if strike_present args req \<noteq> []
      then Some (send_error_response ''missing_required_args''
             (''Required arguments are missing. Required fields: '' @ js_join '', '' req @
              ''. Received: '' @ js_join '', '' (js_keys args)))
      else None)"

definition suite_lookup :: "wpts \<Rightarrow> int \<Rightarrow> test_suite option" where
  "suite_lookup st i = (if i < 0 then None else test_suites st (nat i))"

text \<open>\<open>validTestSuiteId\<close>: on success the key and the suite it names.\<close>

definition valid_test_suite_id :: "wpts \<Rightarrow> jsval option \<Rightarrow> response + nat \<times> test_suite" where
  "valid_test_suite_id st v =
     (case v of
        Some (JNum i) \<Rightarrow>
          (case suite_lookup st i of
             None \<Rightarrow> Inl (send_error_response ''invalid_test_suite_id''
                      (''testSuiteId passed in doesn't exist: '' @ str_of_int i @ ''.''))
           | Some s \<Rightarrow> Inr (nat i, s))
      | _ \<Rightarrow> Inl (send_error_response ''invalid_variable_type''
               (''testSuiteId should be a number, found '' @ js_typeof v @ ''.'')))"

text \<open>\<open>validTestId\<close>: on success the session that drives the instance.\<close>

definition valid_test_id :: "wpts \<Rightarrow> jsval option \<Rightarrow> jsval option \<Rightarrow> response + nat" where
  "valid_test_id st sv tv =
     (case valid_test_suite_id st sv of
        Inl r \<Rightarrow> Inl r
      | Inr (_, s) \<Rightarrow>
          (case tv of
             Some (JNum j) \<Rightarrow>
               (case get_test_instance s j of
                  None \<Rightarrow> Inl (send_error_response ''invalid_test_id''
                           (''testId was not found as a valid test, received testId: '' @
                            str_of_int j @ ''.''))
                | Some d \<Rightarrow> Inr d)
           | _ \<Rightarrow> Inl (send_error_response ''invalid_variable_type''
                    (''testId should be a number, found '' @ js_typeof tv @ ''.''))))"

definition invalid_browser_name :: "wpts \<Rightarrow> jsval option \<Rightarrow> response" where
  "invalid_browser_name st v =
     send_error_response ''invalid_browser_name''
       (''browserName should be one of the following values: '' @
        js_join '', '' (supported_browsers st) @ ''. Found '' @ js_typeof v @ ''.'')"

definition invalid_browser_version :: "wpts \<Rightarrow> jsval option \<Rightarrow> response" where
  "invalid_browser_version st v =
     send_error_response ''invalid_browser_version''
       (''browserVersion should be one of the following values: '' @
        js_join '', '' (supported_browser_versions st) @ ''. Found '' @ js_typeof v @ ''.'')"

definition browser_not_found :: response where
  "browser_not_found =
     send_error_response ''browser_not_found''
       (''Unable to find the requested browser. This is likely an issue'' @
        ''the push testing service.'')"

definition bad_browser_support :: response where
  "bad_browser_support =
     send_error_response ''bad_browser_support''
       (''Unforuntately Firefox version 49 and below has poor selenium '' @
        ''support or doesn't allow notifications automatically and isn't '' @
        ''supported as a result.'')"

definition invalid_vapid_key :: response where
  "invalid_vapid_key = send_error_response ''invalid_vapid_key'' ''Your vapid public key must be a string.''"

text \<open>
  The checks of \<open>getSubscription\<close> (lines 131 to 185), in the code's order;
  \<open>local_browser\<close> is \<open>seleniumAssistant.getLocalBrowser\<close>. On success: the
  suite's key, the browser and the optional arguments.
\<close>

definition get_subscription_checks ::
  "(string \<Rightarrow> string \<Rightarrow> browser_info option) \<Rightarrow> wpts \<Rightarrow> js_object
     \<Rightarrow> response + nat \<times> browser_info \<times> (string \<times> string) list" where
  "get_subscription_checks local_browser st args =
     (let bn = js_get args ''browserName'';
          bv = js_get args ''browserVersion'';
          vk = js_get args ''vapidPublicKey''
      in case missing_required_args args (required_fields GetSubscription) of
           Some r \<Rightarrow> Inl r
         | None \<Rightarrow>
      case valid_test_suite_id st (js_get args ''testSuiteId'') of
           Inl r \<Rightarrow> Inl r
         | Inr (k, _) \<Rightarrow>
      if \<not> js_truthy bn \<or> js_index_of (supported_browsers st) bn = -1
      then Inl (invalid_browser_name st bn) else
      if \<not> js_truthy bv \<or> js_index_of (supported_browser_versions st) bv = -1
      then Inl (invalid_browser_version st bv) else
      case local_browser (js_str bn) (js_str bv) of
           None \<Rightarrow> Inl browser_not_found
         | Some bi \<Rightarrow>
      if bi_id bi = ''firefox'' \<and> bi_version bi \<le> 48 then Inl bad_browser_support else
      if js_truthy vk
      then (case vk of Some (JStr key) \<Rightarrow> Inr (k, bi, [(''vapidPublicKey'', key)])
                     | _ \<Rightarrow> Inl invalid_vapid_key)
      else Inr (k, bi, []))"

section \<open>Lemmas on validation\<close>

lemma strike_present_set:
  "distinct req \<Longrightarrow> distinct (js_keys args) \<Longrightarrow>
   distinct (strike_present args req) \<and>
   set (strike_present args req) = {k \<in> set req. js_get args k = None \<or> js_get args k = Some JNull}"
proof (induction args arbitrary: req)
  case Nil
  then show ?case by (simp add: js_simps)
next
  case (Cons kv kvs)
  obtain k v where kv: "kv = (k, v)" by (cases kv)
  let ?req' = "if k \<in> set req \<and> v \<noteq> JNull then remove1 k req else req"
  from Cons.prems have "distinct ?req'" by simp
  moreover from Cons.prems kv have "distinct (js_keys kvs)" by (simp add: js_simps)
  ultimately have IH: "distinct (strike_present kvs ?req') \<and>
      set (strike_present kvs ?req') = {k' \<in> set ?req'. js_get kvs k' = None \<or> js_get kvs k' = Some JNull}"
    by (rule Cons.IH)
  from Cons.prems kv have "k \<notin> set (js_keys kvs)" by (simp add: js_simps)
  then have "js_get kvs k = None" by (rule js_get_not_in_keys)
  with IH Cons.prems kv show ?case by (auto simp: js_simps)
qed

text \<open>C10: \<open>missingRequiredArgs\<close> lets a request through exactly when every
  required field is present with a value other than \<open>null\<close> (for a parsed
  body, whose keys are distinct).\<close>

theorem missing_required_args_None:
  "distinct req \<Longrightarrow> distinct (js_keys args) \<Longrightarrow>
   missing_required_args args req = None \<longleftrightarrow>
   (\<forall>k \<in> set req. \<exists>v. js_get args k = Some v \<and> v \<noteq> JNull)"
proof -
  assume d: "distinct req" "distinct (js_keys args)"
  have "missing_required_args args req = None \<longleftrightarrow> set (strike_present args req) = {}"
    by (simp add: missing_required_args_def)
  also have "\<dots> \<longleftrightarrow> (\<forall>k \<in> set req. \<exists>v. js_get args k = Some v \<and> v \<noteq> JNull)"
    using strike_present_set [OF d] by auto
  finally show ?thesis .
qed

lemma missing_required_args_error:
  "missing_required_args args req = Some r \<Longrightarrow> \<exists>msg. r = ErrorResponse ''missing_required_args'' msg"
  by (auto simp: missing_required_args_def split: if_splits)

lemma valid_test_suite_id_error:
  "valid_test_suite_id st v = Inl r \<Longrightarrow> \<exists>eid msg. r = ErrorResponse eid msg"
  by (auto simp: valid_test_suite_id_def split: option.splits jsval.splits)

lemma valid_test_id_error:
  "valid_test_id st sv tv = Inl r \<Longrightarrow> \<exists>eid msg. r = ErrorResponse eid msg"
  by (auto simp: valid_test_id_def dest: valid_test_suite_id_error
           split: sum.splits option.splits jsval.splits prod.splits)

lemma valid_test_suite_id_Inr:
  "valid_test_suite_id st v = Inr (k, s) \<longleftrightarrow> v = Some (JNum (int k)) \<and> test_suites st k = Some s"
  by (auto simp: valid_test_suite_id_def suite_lookup_def split: option.splits jsval.splits if_splits)

lemma valid_test_suite_id_unknown:
  "valid_test_suite_id st (Some (JNum i)) = Inl r \<longleftrightarrow>
   suite_lookup st i = None \<and>
   r = send_error_response ''invalid_test_suite_id''
         (''testSuiteId passed in doesn't exist: '' @ str_of_int i @ ''.'')"
  by (auto simp: valid_test_suite_id_def split: option.splits)

lemma valid_test_suite_id_not_number:
  "(\<forall>i. v \<noteq> Some (JNum i)) \<Longrightarrow>
   valid_test_suite_id st v = Inl (send_error_response ''invalid_variable_type''
     (''testSuiteId should be a number, found '' @ js_typeof v @ ''.''))"
  by (auto simp: valid_test_suite_id_def split: option.splits jsval.splits)

lemma valid_test_id_Inr:
  "valid_test_id st sv tv = Inr d \<longleftrightarrow>
   (\<exists>k s j. sv = Some (JNum (int k)) \<and> test_suites st k = Some s \<and> tv = Some (JNum j) \<and>
            get_test_instance s j = Some d)"
proof
  assume "valid_test_id st sv tv = Inr d"
  then show "\<exists>k s j. sv = Some (JNum (int k)) \<and> test_suites st k = Some s \<and> tv = Some (JNum j) \<and>
            get_test_instance s j = Some d"
    by (auto simp: valid_test_id_def valid_test_suite_id_Inr
             split: sum.splits option.splits jsval.splits prod.splits)
next
  assume "\<exists>k s j. sv = Some (JNum (int k)) \<and> test_suites st k = Some s \<and> tv = Some (JNum j) \<and>
            get_test_instance s j = Some d"
  then show "valid_test_id st sv tv = Inr d"
    by (auto simp: valid_test_id_def valid_test_suite_id_def suite_lookup_def)
qed

lemma valid_test_id_unknown_suite:
  "valid_test_suite_id st sv = Inl r \<Longrightarrow> valid_test_id st sv tv = Inl r"
  by (simp add: valid_test_id_def)

lemma get_subscription_checks_Inr:
  "get_subscription_checks lb st args = Inr (k, bi, opt) \<Longrightarrow>
   (\<exists>s b v. missing_required_args args (required_fields GetSubscription) = None \<and>
       valid_test_suite_id st (js_get args ''testSuiteId'') = Inr (k, s) \<and>
       js_get args ''browserName'' = Some (JStr b) \<and> b \<in> set (supported_browsers st) \<and>
       js_get args ''browserVersion'' = Some (JStr v) \<and> v \<in> set (supported_browser_versions st) \<and>
       lb b v = Some bi \<and> \<not> (bi_id bi = ''firefox'' \<and> bi_version bi \<le> 48))"
  by (auto simp: get_subscription_checks_def Let_def js_index_of_found js_str_def
           split: option.splits sum.splits if_splits prod.splits jsval.splits)

lemma get_subscription_checks_error:
  "get_subscription_checks lb st args = Inl r \<Longrightarrow> \<exists>eid msg. r = ErrorResponse eid msg"
  by (auto simp: get_subscription_checks_def Let_def invalid_browser_name_def invalid_browser_version_def
                 browser_not_found_def bad_browser_support_def invalid_vapid_key_def
           dest: missing_required_args_error valid_test_suite_id_error
           split: option.splits sum.splits if_splits prod.splits jsval.splits)

text \<open>C15: get-subscription with a valid suite and a browserName outside the
  allow-list is rejected with invalid_browser_name.\<close>

theorem browser_name_rejected:
  assumes "missing_required_args args (required_fields GetSubscription) = None"
    and "valid_test_suite_id st (js_get args ''testSuiteId'') = Inr (k, s)"
    and "\<forall>b. js_get args ''browserName'' = Some (JStr b) \<longrightarrow> b \<notin> set (supported_browsers st)"
  shows "get_subscription_checks lb st args = Inl (invalid_browser_name st (js_get args ''browserName''))"
  using assms by (simp add: get_subscription_checks_def Let_def js_index_of_found)

text \<open>The checks once the suite and the browser are accepted.\<close>

lemma get_subscription_checks_browser_ok:
  assumes "missing_required_args args (required_fields GetSubscription) = None"
    and "valid_test_suite_id st (js_get args ''testSuiteId'') = Inr (k, s)"
    and "js_get args ''browserName'' = Some (JStr b)" "b \<noteq> []" "b \<in> set (supported_browsers st)"
    and "js_get args ''browserVersion'' = Some (JStr v)" "v \<noteq> []" "v \<in> set (supported_browser_versions st)"
    and "lb b v = Some bi"
  shows "get_subscription_checks lb st args =
           (if bi_id bi = ''firefox'' \<and> bi_version bi \<le> 48 then Inl bad_browser_support
            else if js_truthy (js_get args ''vapidPublicKey'')
            then (case js_get args ''vapidPublicKey'' of Some (JStr key) \<Rightarrow> Inr (k, bi, [(''vapidPublicKey'', key)])
                  | _ \<Rightarrow> Inl invalid_vapid_key)
            else Inr (k, bi, []))"
  using assms by (simp add: get_subscription_checks_def Let_def js_index_of_found js_str_def)

text \<open>C16: Firefox is refused exactly up to version 48: version 49 passes.\<close>

theorem firefox_version_bound:
  assumes "missing_required_args args (required_fields GetSubscription) = None"
    and "valid_test_suite_id st (js_get args ''testSuiteId'') = Inr (k, s)"
    and "js_get args ''browserName'' = Some (JStr b)" "b \<noteq> []" "b \<in> set (supported_browsers st)"
    and "js_get args ''browserVersion'' = Some (JStr v)" "v \<noteq> []" "v \<in> set (supported_browser_versions st)"
    and "lb b v = Some bi" "bi_id bi = ''firefox''"
  shows "get_subscription_checks lb st args = Inl bad_browser_support \<longleftrightarrow> bi_version bi \<le> 48"
  using get_subscription_checks_browser_ok [of args st k s b v lb bi, OF assms(1-9)] assms(10)
  by (auto simp: bad_browser_support_def invalid_vapid_key_def split: option.splits jsval.splits)

text \<open>C17: a vapidPublicKey that is present but falsy is ignored.\<close>

theorem vapid_falsy_ignored:
  assumes "missing_required_args args (required_fields GetSubscription) = None"
    and "valid_test_suite_id st (js_get args ''testSuiteId'') = Inr (k, s)"
    and "js_get args ''browserName'' = Some (JStr b)" "b \<noteq> []" "b \<in> set (supported_browsers st)"
    and "js_get args ''browserVersion'' = Some (JStr v)" "v \<noteq> []" "v \<in> set (supported_browser_versions st)"
    and "lb b v = Some bi" "\<not> (bi_id bi = ''firefox'' \<and> bi_version bi \<le> 48)"
    and "\<not> js_truthy (js_get args ''vapidPublicKey'')"
  shows "get_subscription_checks lb st args = Inr (k, bi, [])"
  using get_subscription_checks_browser_ok [of args st k s b v lb bi, OF assms(1-9)] assms(10-11) by simp

text \<open>C18: a truthy vapidPublicKey that is not a string is refused.\<close>

theorem vapid_non_string_rejected:
  assumes "missing_required_args args (required_fields GetSubscription) = None"
    and "valid_test_suite_id st (js_get args ''testSuiteId'') = Inr (k, s)"
    and "js_get args ''browserName'' = Some (JStr b)" "b \<noteq> []" "b \<in> set (supported_browsers st)"
    and "js_get args ''browserVersion'' = Some (JStr v)" "v \<noteq> []" "v \<in> set (supported_browser_versions st)"
    and "lb b v = Some bi" "\<not> (bi_id bi = ''firefox'' \<and> bi_version bi \<le> 48)"
    and "js_truthy (js_get args ''vapidPublicKey'')" "\<forall>key. js_get args ''vapidPublicKey'' \<noteq> Some (JStr key)"
  shows "get_subscription_checks lb st args = Inl invalid_vapid_key"
  using get_subscription_checks_browser_ok [of args st k s b v lb bi, OF assms(1-9)] assms(10-12)
  by (auto split: option.splits jsval.splits)

end
