(* ===== verification/Handlers.thy ===== *)
theory Handlers
  imports Wpts
begin

text \<open>
  The request handlers of \<open>WPTS\<close> that drive browsers (\<open>endTestSuite\<close>,
  \<open>getSubscription\<close> with \<open>initiateTestInstance\<close>,
  \<open>getNotificationStatus\<close>, \<open>endService\<close>) and the dispatch of the four API
  events, run one request at a time. The state is the service object
  (\<^typ>\<open>wpts\<close>) and the world it drives: the WebDriver sessions by
  identifier, the preferences each was launched with, the identifier the next
  launch gets and the clock. The environment fixes what the service does not
  control: the installed browsers, the in-page harness of every session, the
  latency of a script and the failures of launching or quitting a session.
  A handler returns the response it sends, \<^const>\<open>None\<close> when its promise
  never settles (the HTTP request then never gets an answer, while what the
  handler did before the wait stays done), and the state after.
\<close>

text \<open>A browser option set before the driver is built: Blink user preferences
  (\<open>setUserPreferences\<close>) or a Firefox preference (\<open>setPreference\<close>).\<close>

datatype pref = UserPreferences jsval | Preference string jsval

record world =
  sessions :: "nat \<Rightarrow> session"
  session_prefs :: "nat \<Rightarrow> pref list"
  next_session :: nat
  clock :: nat

record env =
  local_browser :: "string \<Rightarrow> string \<Rightarrow> browser_info option"
  harness_of :: "nat \<Rightarrow> page harness"
  latency :: nat
  launch_error :: "nat \<Rightarrow> string option"
  kill_error :: "nat \<Rightarrow> string option"

definition closed_session :: session where
  "closed_session = \<lparr>br_quit = True, br_url = [], br_page = None\<rparr>"

definition fresh_session :: session where
  "fresh_session = \<lparr>br_quit = False, br_url = ''about:blank'', br_page = None\<rparr>"

definition init_world :: world where
  "init_world = \<lparr>sessions = (\<lambda>_. closed_session), session_prefs = (\<lambda>_. []),
                 next_session = 0, clock = 0\<rparr>"

section \<open>Getting a subscription\<close>

text \<open>The Blink profile preference that grants notifications to the harness's
  origin (lines 255 to 267).\<close>

definition blink_preferences :: "string \<Rightarrow> jsval" where
  "blink_preferences url =
     JObj [(''profile'', JObj [(''content_settings'', JObj [(''exceptions'',
       JObj [(''notifications'', JObj [(url @ '',*'', JObj [(''setting'', JNum 1)])])])])])]"

text \<open>The options set before the driver is built (lines 252 to 277).\<close>

definition selenium_preferences :: "string \<Rightarrow> browser_info \<Rightarrow> pref list" where
  "selenium_preferences url bi =
     (if bi_id bi = ''chrome'' \<or> bi_id bi = ''opera'' then [UserPreferences (blink_preferences url)]
      else if bi_id bi = ''firefox''
      then [Preference ''dom.push.testing.ignorePermission'' (JBool True),
            Preference ''notification.prompt.testing'' (JBool True),
            Preference ''notification.prompt.testing.allow'' (JBool True)]
      else [])"

text \<open>\<open>getSeleniumDriver()\<close>: a new session, or the launch failure.\<close>

definition launch_session :: "env \<Rightarrow> pref list \<Rightarrow> world \<Rightarrow> thrown + nat \<times> world" where
  "launch_session e prefs w =
     (let d = next_session w
      in case launch_error e d of
           Some m \<Rightarrow> Inl (Failure m)
         | None \<Rightarrow> Inr (d, w\<lparr>sessions := (sessions w)(d := fresh_session),
                            session_prefs := (session_prefs w)(d := prefs),
                            next_session := Suc d\<rparr>))"

text \<open>\<open>initiateTestInstance\<close> (lines 249 to 362): launch, register the session
  in the suite, then run the subscription chain on it.\<close>

definition initiate_test_instance ::
  "env \<Rightarrow> nat \<Rightarrow> (string \<times> string) list \<Rightarrow> browser_info \<Rightarrow> wpts \<times> world
     \<Rightarrow> (thrown + jsval) option \<times> wpts \<times> world" where
  "initiate_test_instance e k opt bi sw =
     (let (st, w) = sw
      in case launch_session e (selenium_preferences (api_url st) bi) w of
           Inl err \<Rightarrow> (Some (Inl err), st, w)
         | Inr (d, w1) \<Rightarrow>
             (case test_suites st k of
                None \<Rightarrow> (Some (Inl (Failure ''Cannot read property addTestInstance of undefined'')), st, w1)
              | Some s \<Rightarrow>
                  (let (tid, s') = add_test_instance d s;
                       st1 = st\<lparr>test_suites := (test_suites st)(k \<mapsto> s')\<rparr>
                   in case subscribe_chain (harness_of e d) (latency e) (api_url st) opt tid
                             (clock w1) (sessions w1 d) of
                        None \<Rightarrow> (None, st1, w1)
                      | Some (Inl err) \<Rightarrow> (Some (Inl err), st1, w1)
                      | Some (Inr (details, t, b)) \<Rightarrow>
                          (Some (Inr details), st1, w1\<lparr>sessions := (sessions w1)(d := b), clock := t\<rparr>))))"

definition subscription_prefix :: string where
  "subscription_prefix = ''An issue occured while attempting to get the subscription: ''"

text \<open>The \<open>catch\<close> of lines 192 to 201.\<close>

fun subscription_failure :: "thrown \<Rightarrow> response" where
  "subscription_failure (Coded c m) =
     (if c \<noteq> [] \<and> js_truthy (Some m)
      then send_error_response c (subscription_prefix @ js_to_string m)
      else send_error_response ''webdriver_issue'' (subscription_prefix @ js_to_string m))"
| "subscription_failure (Failure m) = send_error_response ''webdriver_issue'' (subscription_prefix @ m)"

definition get_subscription ::
  "env \<Rightarrow> js_object \<Rightarrow> wpts \<times> world \<Rightarrow> response option \<times> wpts \<times> world" where
  "get_subscription e args sw =
     (case get_subscription_checks (local_browser e) (fst sw) args of
        Inl r \<Rightarrow> (Some r, sw)
      | Inr (k, bi, opt) \<Rightarrow>
          (let (res, st', w') = initiate_test_instance e k opt bi sw
           in (map_option (case_sum subscription_failure (\<lambda>details. send_valid_response (Some details))) res,
               st', w')))"

section \<open>Polling a test instance\<close>

definition get_notification_status ::
  "env \<Rightarrow> js_object \<Rightarrow> wpts \<times> world \<Rightarrow> response option \<times> wpts \<times> world" where
  "get_notification_status e args sw =
     (let (st, w) = sw
      in case missing_required_args args (required_fields GetNotificationStatus) of
           Some r \<Rightarrow> (Some r, sw)
         | None \<Rightarrow>
      case valid_test_id st (js_get args ''testSuiteId'') (js_get args ''testId'') of
           Inl r \<Rightarrow> (Some r, sw)
         | Inr d \<Rightarrow>
      case poll_messages (harness_of e d) (latency e) (clock w) (sessions w d) of
           None \<Rightarrow> (None, sw)
         | Some (Inl err) \<Rightarrow>
             (Some (send_error_response ''web_driver_error''
                (''An error occured while attempting to check the notification status. '' @
                 drv_error_message err)), sw)
         | Some (Inr (ms, t, b)) \<Rightarrow>
             (Some (send_valid_response (Some (JObj [(''messages'', JArr (map JStr ms))]))),
              st, w\<lparr>sessions := (sessions w)(d := b), clock := t\<rparr>))"

section \<open>Ending suites\<close>

definition quit_sessions :: "nat list \<Rightarrow> (nat \<Rightarrow> session) \<Rightarrow> nat \<Rightarrow> session" where
  "quit_sessions ds m = fold (\<lambda>d m. m(d := quit (m d))) ds m"

text \<open>Ending one suite in the registry: its sessions quit, then the key
  deleted, or, when a quit failed, the cleared suite left under it.\<close>

definition end_registered_suite ::
  "env \<Rightarrow> nat \<Rightarrow> test_suite \<Rightarrow> wpts \<times> world \<Rightarrow> string option \<times> wpts \<times> world" where
  "end_registered_suite e k s sw =
     (let (st, w) = sw;
          (ds, err, s') = end_suite (kill_error e) s;
          w' = w\<lparr>sessions := quit_sessions ds (sessions w)\<rparr>
      in case err of
           None \<Rightarrow> (None, st\<lparr>test_suites := (test_suites st)(k := None)\<rparr>, w')
         | Some m \<Rightarrow> (Some m, st\<lparr>test_suites := (test_suites st)(k \<mapsto> s')\<rparr>, w'))"

definition end_test_suite ::
  "env \<Rightarrow> js_object \<Rightarrow> wpts \<times> world \<Rightarrow> response option \<times> wpts \<times> world" where
  "end_test_suite e args sw =
     (case missing_required_args args (required_fields EndTestSuite) of
        Some r \<Rightarrow> (Some r, sw)
      | None \<Rightarrow>
     case valid_test_suite_id (fst sw) (js_get args ''testSuiteId'') of
        Inl r \<Rightarrow> (Some r, sw)
      | Inr (k, s) \<Rightarrow>
          (case end_registered_suite e k s sw of
             (None, sw') \<Rightarrow> (Some (send_valid_response None), sw')
           | (Some m, sw') \<Rightarrow> (Some (send_error_response ''webdriver_issue'' (subscription_prefix @ m)), sw')))"

text \<open>\<open>endService\<close>: every suite ended in key order; the identifier counter
  is reset only when all of them ended.\<close>

fun end_suites :: "env \<Rightarrow> nat list \<Rightarrow> bool \<times> wpts \<times> world \<Rightarrow> bool \<times> wpts \<times> world" where
  "end_suites e [] acc = acc"
| "end_suites e (k # ks) (ok, st, w) =
     (case test_suites st k of
        None \<Rightarrow> end_suites e ks (ok, st, w)
      | Some s \<Rightarrow>
          (case end_registered_suite e k s (st, w) of
             (None, sw') \<Rightarrow> end_suites e ks (ok, sw')
           | (Some _, sw') \<Rightarrow> end_suites e ks (False, sw')))"

definition end_service :: "env \<Rightarrow> wpts \<times> world \<Rightarrow> wpts \<times> world" where
  "end_service e sw =
     (let (ok, st', w') = end_suites e [0..<available_test_suite_id (fst sw)] (True, sw)
      in (if ok then st'\<lparr>available_test_suite_id := 0\<rparr> else st', w'))"

section \<open>Dispatch\<close>

fun handle :: "env \<Rightarrow> api_event \<Rightarrow> js_object \<Rightarrow> wpts \<times> world \<Rightarrow> response option \<times> wpts \<times> world" where
  "handle e StartTestSuite args sw = (let (r, st') = start_test_suite (fst sw) in (Some r, st', snd sw))"
| "handle e EndTestSuite args sw = end_test_suite e args sw"
| "handle e GetSubscription args sw = get_subscription e args sw"
| "handle e GetNotificationStatus args sw = get_notification_status e args sw"

section \<open>Lemmas on sessions and suites\<close>

lemma quit_sessions_other [simp]: "d \<notin> set ds \<Longrightarrow> quit_sessions ds m d = m d"
  by (induction ds arbitrary: m) (simp_all add: quit_sessions_def)

lemma quit_sessions_quit: "br_quit (quit_sessions ds m d) \<longleftrightarrow> d \<in> set ds \<or> br_quit (m d)"
  by (induction ds arbitrary: m) (auto simp: quit_sessions_def)

lemma subscribe_chain_live:
  "subscribe_chain h lat url opt tid t b = Some (Inr (details, t', b')) \<Longrightarrow> \<not> br_quit b'"
  by (auto simp: subscribe_chain_def pthen_Some_Inr lift_drv_def dest!: execute_script_live
           split: sum.splits prod.splits)

lemma poll_messages_live:
  "poll_messages h lat t b = Some (Inr (ms, t', b')) \<Longrightarrow> \<not> br_quit b'"
  by (drule poll_messages_drains) auto

lemma launch_session_Inr:
  "launch_session e prefs w = Inr (d, w1) \<longleftrightarrow>
   d = next_session w \<and> launch_error e d = None \<and>
   w1 = w\<lparr>sessions := (sessions w)(d := fresh_session), session_prefs := (session_prefs w)(d := prefs),
          next_session := Suc d\<rparr>"
  by (auto simp: launch_session_def Let_def split: option.splits)

lemma launch_session_Inl: "launch_session e prefs w = Inl err \<Longrightarrow> err = Failure (the (launch_error e (next_session w)))"
  by (auto simp: launch_session_def Let_def split: option.splits)

lemma end_registered_suite_result:
  assumes "end_registered_suite e k s (st, w) = (err, st', w')"
  shows "w' = w\<lparr>sessions := quit_sessions (fst (end_suite (kill_error e) s)) (sessions w)\<rparr> \<and>
         err = fst (snd (end_suite (kill_error e) s)) \<and>
         st' = st\<lparr>test_suites := (if err = None then (test_suites st)(k := None)
                                 else (test_suites st)(k \<mapsto> s\<lparr>test_instances := Map.empty\<rparr>))\<rparr>"
  using assms
  by (auto simp: end_registered_suite_def end_suite_def Let_def split: option.splits)

text \<open>What \<open>initiateTestInstance\<close> can do to the state: nothing (the launch
  failed), launch a session \<open>d\<close> and nothing more (no suite under the key), or
  launch \<open>d\<close>, register it as the suite's next instance and possibly replace
  it by the live session the chain resolved with.\<close>

lemma initiate_test_instance_result:
  assumes "initiate_test_instance e k opt bi (st, w) = (res, st', w')"
  shows "(st' = st \<and> w' = w) \<or>
         (\<exists>w1. launch_session e (selenium_preferences (api_url st) bi) w = Inr (next_session w, w1) \<and>
           ((test_suites st k = None \<and> st' = st \<and> w' = w1) \<or>
            (\<exists>s. test_suites st k = Some s \<and>
               st' = st\<lparr>test_suites := (test_suites st)(k \<mapsto> snd (add_test_instance (next_session w) s))\<rparr> \<and>
               (w' = w1 \<or> (\<exists>b t. \<not> br_quit b \<and>
                  w' = w1\<lparr>sessions := (sessions w1)(next_session w := b), clock := t\<rparr>)))))"
proof (cases "launch_session e (selenium_preferences (api_url st) bi) w")
  case (Inl err)
  with assms show ?thesis by (simp add: initiate_test_instance_def)
next
  case (Inr dw)
  then obtain d w1 where l: "launch_session e (selenium_preferences (api_url st) bi) w = Inr (d, w1)"
    by (cases dw) auto
  then have d: "d = next_session w" by (simp add: launch_session_Inr)
  show ?thesis
  proof (cases "test_suites st k")
    case None
    with assms l d show ?thesis by (simp add: initiate_test_instance_def)
  next
    case (Some s)
    let ?st1 = "st\<lparr>test_suites := (test_suites st)(k \<mapsto> snd (add_test_instance d s))\<rparr>"
    let ?c = "subscribe_chain (harness_of e d) (latency e) (api_url st) opt (next_test_instance_id s)
                (clock w1) (sessions w1 d)"
    have "st' = ?st1 \<and> (w' = w1 \<or> (\<exists>b t. \<not> br_quit b \<and>
                  w' = w1\<lparr>sessions := (sessions w1)(d := b), clock := t\<rparr>))"
    proof (cases ?c)
      case None
      with assms l Some show ?thesis
        by (simp add: initiate_test_instance_def add_test_instance_def Let_def)
    next
      case (Some r)
      with assms l \<open>test_suites st k = Some s\<close> show ?thesis
        by (cases r) (auto simp: initiate_test_instance_def add_test_instance_def Let_def
                           dest: subscribe_chain_live)
    qed
    with l d Some show ?thesis by blast
  qed
qed

section \<open>Validation fails fast\<close>

text \<open>C8: a request to end-test-suite, get-subscription or
  get-notification-status with a required field missing or null is answered
  with the \<open>missing_required_args\<close> error, and neither the service nor any
  browser is touched.\<close>

lemma missing_args_rejected:
  "ev \<noteq> StartTestSuite \<Longrightarrow> missing_required_args args (required_fields ev) = Some r \<Longrightarrow>
   handle e ev args (st, w) = (Some r, st, w)"
  by (cases ev) (auto simp: end_test_suite_def get_subscription_def get_subscription_checks_def
                            get_notification_status_def)

lemma handle_suite_id_invalid:
  "ev \<noteq> StartTestSuite \<Longrightarrow> missing_required_args args (required_fields ev) = None \<Longrightarrow>
   valid_test_suite_id st (js_get args ''testSuiteId'') = Inl r \<Longrightarrow>
   handle e ev args (st, w) = (Some r, st, w)"
  by (cases ev) (auto simp: end_test_suite_def get_subscription_def get_subscription_checks_def
                            get_notification_status_def valid_test_id_unknown_suite)

text \<open>C7: every operation addressing a test suite by a number that names no
  live suite answers \<open>invalid_test_suite_id\<close> and changes nothing.\<close>

theorem unknown_suite_rejected:
  assumes "ev \<noteq> StartTestSuite"
    and "missing_required_args args (required_fields ev) = None"
    and "js_get args ''testSuiteId'' = Some (JNum i)"
    and "suite_lookup st i = None"
  shows "handle e ev args (st, w) =
           (Some (ErrorResponse ''invalid_test_suite_id''
                   (''testSuiteId passed in doesn't exist: '' @ str_of_int i @ ''.'')), st, w)"
proof -
  from assms(3,4) have "valid_test_suite_id st (js_get args ''testSuiteId'') =
      Inl (send_error_response ''invalid_test_suite_id''
             (''testSuiteId passed in doesn't exist: '' @ str_of_int i @ ''.''))"
    by (simp add: valid_test_suite_id_unknown)
  with assms(1,2) show ?thesis by (simp add: handle_suite_id_invalid)
qed

text \<open>C9: a testSuiteId that is present but not a number is answered with
  \<open>invalid_variable_type\<close>, naming the type found, and changes nothing.\<close>

theorem non_numeric_suite_id_rejected:
  assumes "ev \<noteq> StartTestSuite"
    and "missing_required_args args (required_fields ev) = None"
    and "\<forall>i. js_get args ''testSuiteId'' \<noteq> Some (JNum i)"
  shows "handle e ev args (st, w) =
           (Some (ErrorResponse ''invalid_variable_type''
                   (''testSuiteId should be a number, found '' @
                    js_typeof (js_get args ''testSuiteId'') @ ''.'')), st, w)"
  using assms valid_test_suite_id_not_number [OF assms(3), of st]
  by (simp add: handle_suite_id_invalid)

section \<open>Polling for notifications\<close>

lemma get_notification_status_poll:
  assumes "missing_required_args args (required_fields GetNotificationStatus) = None"
    and "valid_test_id st (js_get args ''testSuiteId'') (js_get args ''testId'') = Inr d"
  shows "get_notification_status e args (st, w) =
    (case poll_messages (harness_of e d) (latency e) (clock w) (sessions w d) of
       None \<Rightarrow> (None, st, w)
     | Some (Inl err) \<Rightarrow>
         (Some (send_error_response ''web_driver_error''
            (''An error occured while attempting to check the notification status. '' @
             drv_error_message err)), st, w)
     | Some (Inr (ms, t, b)) \<Rightarrow>
         (Some (send_valid_response (Some (JObj [(''messages'', JArr (map JStr ms))]))),
          st, w\<lparr>sessions := (sessions w)(d := b), clock := t\<rparr>))"
  using assms by (simp add: get_notification_status_def)

text \<open>C13: get-notification-status always answers: its wait has a timeout, so
  its promise settles whatever the page does.\<close>

theorem get_notification_status_responds: "fst (get_notification_status e args sw) \<noteq> None"
proof -
  obtain st w where sw: "sw = (st, w)" by (cases sw)
  show ?thesis
  proof (cases "missing_required_args args (required_fields GetNotificationStatus)")
    case m: None
    show ?thesis
    proof (cases "valid_test_id st (js_get args ''testSuiteId'') (js_get args ''testId'')")
      case v: (Inr d)
      obtain r where "poll_messages (harness_of e d) (latency e) (clock w) (sessions w d) = Some r"
        using poll_messages_settles by blast
      with m v show ?thesis
        by (cases r) (auto simp: sw get_notification_status_poll)
    next
      case v: (Inl r)
      with m show ?thesis by (simp add: sw get_notification_status_def)
    qed
  qed (simp add: sw get_notification_status_def)
qed

text \<open>C12: a successful get-notification-status never returns an empty list:
  the wait resolves only on a non-empty buffer and times out otherwise, so an
  instance that received nothing is answered with \<open>web_driver_error\<close>.\<close>

theorem notification_status_nonempty:
  assumes "get_notification_status e args sw = (Some (ValidResponse (Some (JObj [(''messages'', JArr vs)]))), sw')"
  shows "vs \<noteq> []"
proof -
  obtain st w where sw: "sw = (st, w)" by (cases sw)
  from assms obtain d ms t b where
    "poll_messages (harness_of e d) (latency e) (clock w) (sessions w d) = Some (Inr (ms, t, b))"
    and "vs = map JStr ms"
    by (auto simp: sw get_notification_status_def split: option.splits sum.splits prod.splits
             dest: missing_required_args_error valid_test_id_error)
  with poll_messages_drains show ?thesis by fastforce
qed

text \<open>C11: draining is exactly once. On an instance whose page holds the
  messages \<open>ms\<close> and whose harness adds none afterwards, a first
  get-notification-status returns exactly \<open>ms\<close>, and a second one finds the
  buffer empty and answers \<open>web_driver_error\<close> after the 60 s wait
  (not \<open>{messages: []}\<close>).\<close>

theorem drain_exactly_once:
  assumes req: "missing_required_args args (required_fields GetNotificationStatus) = None"
    and inst: "valid_test_id st (js_get args ''testSuiteId'') (js_get args ''testId'') = Inr d"
    and live: "\<not> br_quit (sessions w d)"
    and page: "br_page (sessions w d) = Some p" and ne: "pts_received p \<noteq> []"
    and keep: "\<forall>t q. \<exists>q'. harness_of e d t (Some q) = Some q' \<and> pts_received q' = pts_received q"
  shows "\<exists>w1. get_notification_status e args (st, w) =
             (Some (ValidResponse (Some (JObj [(''messages'', JArr (map JStr (pts_received p)))]))), st, w1) \<and>
           fst (get_notification_status e args (st, w1)) =
             Some (ErrorResponse ''web_driver_error''
               (''An error occured while attempting to check the notification status. '' @
                drv_error_message (WaitTimeout 60000)))"
proof -
  let ?b1 = "(sessions w d)\<lparr>br_page := Some (p\<lparr>pts_received := []\<rparr>)\<rparr>"
  let ?w1 = "w\<lparr>sessions := (sessions w)(d := ?b1), clock := clock w + latency e\<rparr>"
  have first: "get_notification_status e args (st, w) =
      (Some (ValidResponse (Some (JObj [(''messages'', JArr (map JStr (pts_received p)))]))), st, ?w1)"
    using poll_messages_immediate [OF live page ne] by (simp add: get_notification_status_poll [OF req inst])
  have empty: "\<forall>t (q :: pts_state). pts_received q = [] \<longrightarrow>
      (\<exists>q'. harness_of e d t (Some q) = Some q' \<and> pts_received q' = [])"
    using keep by metis
  have "poll_messages (harness_of e d) (latency e) (clock ?w1) (sessions ?w1 d) = Some (Inl (WaitTimeout 60000))"
    using live by (intro poll_messages_timeout [where s = "p\<lparr>pts_received := []\<rparr>", OF _ _ _ empty]) simp_all
  then have "fst (get_notification_status e args (st, ?w1)) =
             Some (ErrorResponse ''web_driver_error''
               (''An error occured while attempting to check the notification status. '' @
                drv_error_message (WaitTimeout 60000)))"
    by (simp add: get_notification_status_poll [OF req inst])
  with first show ?thesis by blast
qed

lemma subscription_failure_error: "\<exists>eid msg. subscription_failure x = ErrorResponse eid msg"
  by (cases x) auto

text \<open>C5: a valid get-subscription answer carries the identifier of a new test
  instance registered in the suite the request's testSuiteId names, no other
  suite changes, and the instance is driven by a newly launched live
  session.\<close>

theorem get_subscription_success:
  assumes r: "get_subscription e args (st, w) = (Some (ValidResponse (Some details)), st', w')"
  shows "\<exists>k s sub. js_get args ''testSuiteId'' = Some (JNum (int k)) \<and> test_suites st k = Some s \<and>
           details = test_details (next_test_instance_id s) sub \<and>
           test_suites st' = (test_suites st)(k \<mapsto> snd (add_test_instance (next_session w) s)) \<and>
           next_session w' = Suc (next_session w) \<and> \<not> br_quit (sessions w' (next_session w))"
proof -
  obtain k bi opt where c: "get_subscription_checks (local_browser e) st args = Inr (k, bi, opt)"
    using r get_subscription_checks_error [of "local_browser e" st args]
    by (cases "get_subscription_checks (local_browser e) st args") (auto simp: get_subscription_def)
  obtain res where i: "initiate_test_instance e k opt bi (st, w) = (res, st', w')"
    and res: "map_option (case_sum subscription_failure (\<lambda>d. send_valid_response (Some d))) res =
                Some (ValidResponse (Some details))"
    using r c by (auto simp: get_subscription_def split: prod.splits)
  have ok: "res = Some (Inr details)"
  proof (cases res)
    case None
    with res show ?thesis by simp
  next
    case (Some a)
    show ?thesis
    proof (cases a)
      case (Inl x)
      with Some res subscription_failure_error [of x] show ?thesis by auto
    next
      case (Inr d)
      with Some res show ?thesis by simp
    qed
  qed
  obtain dw1 where "launch_session e (selenium_preferences (api_url st) bi) w = Inr dw1"
    using i ok by (cases "launch_session e (selenium_preferences (api_url st) bi) w")
                  (auto simp: initiate_test_instance_def)
  then obtain w1 where l: "launch_session e (selenium_preferences (api_url st) bi) w = Inr (next_session w, w1)"
    by (cases dw1) (auto simp: launch_session_Inr)
  then have w1: "next_session w1 = Suc (next_session w)" by (simp add: launch_session_Inr)
  obtain s where s: "test_suites st k = Some s"
    using i ok l by (auto simp: initiate_test_instance_def split: option.splits)
  obtain t b where sc: "subscribe_chain (harness_of e (next_session w)) (latency e) (api_url st) opt
        (next_test_instance_id s) (clock w1) (sessions w1 (next_session w)) = Some (Inr (details, t, b))"
    and out: "st' = st\<lparr>test_suites := (test_suites st)(k \<mapsto> snd (add_test_instance (next_session w) s))\<rparr>"
             "w' = w1\<lparr>sessions := (sessions w1)(next_session w := b), clock := t\<rparr>"
    using i ok l s by (auto simp: initiate_test_instance_def add_test_instance_def Let_def
                            split: option.splits sum.splits)
  show ?thesis
    using subscribe_chain_details [OF sc] subscribe_chain_live [OF sc] get_subscription_checks_Inr [OF c]
      s out w1 by (auto simp: valid_test_suite_id_Inr)
qed

text \<open>C6: when the harness page never loads, get-subscription never answers,
  while the instance it registered and the session it launched stay.\<close>

theorem harness_absent_no_response:
  assumes c: "get_subscription_checks (local_browser e) st args = Inr (k, bi, opt)"
    and s: "test_suites st k = Some s" and l: "launch_error e (next_session w) = None"
    and absent: "\<forall>t. harness_of e (next_session w) t None = None"
  shows "get_subscription e args (st, w) =
           (None, st\<lparr>test_suites := (test_suites st)(k \<mapsto> snd (add_test_instance (next_session w) s))\<rparr>,
            w\<lparr>sessions := (sessions w)(next_session w := fresh_session),
              session_prefs := (session_prefs w)(next_session w := selenium_preferences (api_url st) bi),
              next_session := Suc (next_session w)\<rparr>)"
proof -
  have "subscribe_chain (harness_of e (next_session w)) (latency e) (api_url st) opt (next_test_instance_id s)
          (clock w) fresh_session = None"
    using absent by (intro subscribe_chain_harness_absent) (auto simp: fresh_session_def)
  then show ?thesis
    using c s l by (simp add: get_subscription_def initiate_test_instance_def launch_session_def Let_def
                     add_test_instance_def)
qed

end
