(* ===== verification/Service.thy ===== *)
theory Service
  imports Handlers
begin

text \<open>
  Runs of the service: the states reachable from a freshly constructed
  \<open>WPTS\<close> by any sequence of requests and service stops, the sequential run
  of a list of requests, and the invariant every reachable state satisfies:
  suites are stored under their own identifier, below the identifier counter,
  and well formed; every registered instance is driven by a session that was
  launched and not quit; no session drives two instances. From it: the
  isolation of suites under every request and the result of ending a suite.
\<close>

definition suites_wf :: "wpts \<Rightarrow> bool" where
  "suites_wf st \<longleftrightarrow>
     (\<forall>k s. test_suites st k = Some s \<longrightarrow>
        suite_id s = k \<and> k < available_test_suite_id st \<and> suite_wf s)"

definition sessions_wf :: "wpts \<Rightarrow> world \<Rightarrow> bool" where
  "sessions_wf st w \<longleftrightarrow>
     (\<forall>k s i d. test_suites st k = Some s \<longrightarrow> test_instances s i = Some d \<longrightarrow>
        d < next_session w \<and> \<not> br_quit (sessions w d))"

definition sessions_exclusive :: "wpts \<Rightarrow> bool" where
  "sessions_exclusive st \<longleftrightarrow>
     (\<forall>k1 s1 i1 k2 s2 i2 d.
        test_suites st k1 = Some s1 \<longrightarrow> test_instances s1 i1 = Some d \<longrightarrow>
        test_suites st k2 = Some s2 \<longrightarrow> test_instances s2 i2 = Some d \<longrightarrow>
        k1 = k2 \<and> i1 = i2)"

definition service_inv :: "wpts \<Rightarrow> world \<Rightarrow> bool" where
  "service_inv st w \<longleftrightarrow> suites_wf st \<and> sessions_wf st w \<and> sessions_exclusive st"

text \<open>A request leaves suite \<open>k'\<close> alone: the suite, and every session
  driving one of its instances, are as before.\<close>

definition untouched :: "wpts \<Rightarrow> world \<Rightarrow> wpts \<Rightarrow> world \<Rightarrow> nat \<Rightarrow> bool" where
  "untouched st w st' w' k' \<longleftrightarrow> test_suites st' k' = test_suites st k' \<and>
     (\<forall>s i d. test_suites st k' = Some s \<longrightarrow> test_instances s i = Some d \<longrightarrow> sessions w' d = sessions w d)"

text \<open>The states a service constructed by \<open>new WPTS(port, browsers, versions)\<close>
  reaches: any request of the API, and \<open>endService\<close>.\<close>

inductive reachable :: "env \<Rightarrow> wpts \<times> world \<Rightarrow> bool" for e where
  init: "reachable e (new_wpts port bs vs, init_world)"
| request: "reachable e sw \<Longrightarrow> handle e ev args sw = (r, sw') \<Longrightarrow> reachable e sw'"
| stop: "reachable e sw \<Longrightarrow> reachable e (end_service e sw)"

text \<open>A sequence of requests served one after the other.\<close>

fun serve :: "env \<Rightarrow> (api_event \<times> js_object) list \<Rightarrow> wpts \<times> world \<Rightarrow> response option list \<times> wpts \<times> world" where
  "serve e [] sw = ([], sw)"
| "serve e ((ev, args) # rqs) sw =
     (let (r, sw') = handle e ev args sw; (rs, sw'') = serve e rqs sw' in (r # rs, sw''))"

text \<open>The suite identifiers that the start-test-suite requests of a run were
  answered with.\<close>

definition started_id :: "response option \<Rightarrow> int option" where
  "started_id r =
     (case r of
        Some (ValidResponse (Some (JObj [(k, JNum i)]))) \<Rightarrow> (if k = ''testSuiteId'' then Some i else None)
      | _ \<Rightarrow> None)"

definition started_ids :: "(api_event \<times> js_object) list \<Rightarrow> response option list \<Rightarrow> int list" where
  "started_ids rqs rs =
     List.map_filter (\<lambda>((ev, _), r). if ev = StartTestSuite then started_id r else None) (zip rqs rs)"

section \<open>Every request keeps the invariant\<close>

lemma service_inv_init: "service_inv (new_wpts port bs vs) init_world"
  by (simp add: service_inv_def suites_wf_def sessions_wf_def sessions_exclusive_def new_wpts_def)

lemma service_inv_start:
  "service_inv st w \<Longrightarrow> service_inv (snd (start_test_suite st)) w"
  by (auto simp: service_inv_def suites_wf_def sessions_wf_def sessions_exclusive_def
                 start_test_suite_def Let_def less_SucI split: if_splits)

lemma service_inv_end_registered:
  assumes inv: "service_inv st w" and k: "test_suites st k = Some s"
    and r: "end_registered_suite e k s (st, w) = (err, st', w')"
  shows "service_inv st' w'"
proof -
  let ?ds = "fst (end_suite (kill_error e) s)"
  note res = end_registered_suite_result [OF r]
  from inv k have wf: "suite_wf s" by (simp add: service_inv_def suites_wf_def)
  have ds: "d \<in> ran (test_instances s)" if "d \<in> set ?ds" for d
    using that end_suite_quit [of "kill_error e" s] set_suite_drivers [OF wf]
    by (cases "end_suite (kill_error e) s") auto
  have ts: "test_suites st' k' = Some s2 \<Longrightarrow> test_instances s2 i = Some d \<Longrightarrow>
      k' \<noteq> k \<and> test_suites st k' = Some s2" for k' s2 i d
    using res by (auto split: if_splits)
  have other: "d \<notin> set ?ds" if "test_suites st k' = Some s2" "test_instances s2 i = Some d" "k' \<noteq> k" for k' s2 i d
  proof
    assume "d \<in> set ?ds"
    then obtain i' where "test_instances s i' = Some d" using ds by (auto simp: ran_def)
    with that inv k show False by (auto simp: service_inv_def sessions_exclusive_def)
  qed
  have "suites_wf st'"
    using inv k res by (auto simp: service_inv_def suites_wf_def suite_wf_def split: if_splits)
  moreover have "sessions_wf st' w'"
  proof (unfold sessions_wf_def, intro allI impI)
    fix k' s2 i d
    assume a: "test_suites st' k' = Some s2" "test_instances s2 i = Some d"
    with ts have "k' \<noteq> k" and old: "test_suites st k' = Some s2" by blast+
    with a other have "d \<notin> set ?ds" by blast
    with inv old a res show "d < next_session w' \<and> \<not> br_quit (sessions w' d)"
      by (auto simp: service_inv_def sessions_wf_def)
  qed
  moreover have "sessions_exclusive st'"
    using inv ts by (simp add: service_inv_def sessions_exclusive_def) blast
  ultimately show ?thesis by (simp add: service_inv_def)
qed

text \<open>A change of the world alone keeps the invariant when it launches no
  fewer sessions and quits none of the registered ones.\<close>

lemma service_inv_world:
  assumes inv: "service_inv st w" and n: "next_session w \<le> next_session w'"
    and live: "\<And>d. \<not> br_quit (sessions w d) \<Longrightarrow> d < next_session w \<Longrightarrow> \<not> br_quit (sessions w' d)"
  shows "service_inv st w'"
  using inv n live by (fastforce simp: service_inv_def sessions_wf_def)

lemma service_inv_register:
  assumes inv: "service_inv st w" and k: "test_suites st k = Some s"
    and d: "d = next_session w" and n: "next_session w' = Suc d" and live: "\<not> br_quit (sessions w' d)"
    and same: "\<And>d'. d' \<noteq> d \<Longrightarrow> sessions w' d' = sessions w d'"
  shows "service_inv (st\<lparr>test_suites := (test_suites st)(k \<mapsto> snd (add_test_instance d s))\<rparr>) w'"
proof -
  let ?s' = "snd (add_test_instance d s)"
  let ?st' = "st\<lparr>test_suites := (test_suites st)(k \<mapsto> ?s')\<rparr>"
  from inv k have wf: "suite_wf s" and sk: "suite_id s = k" "k < available_test_suite_id st"
    by (auto simp: service_inv_def suites_wf_def)
  have old: "d' < d \<and> \<not> br_quit (sessions w d')"
    if "test_suites st k2 = Some s2" "test_instances s2 i = Some d'" for k2 s2 i d'
    using inv that d by (auto simp: service_inv_def sessions_wf_def)
  have tid: "test_instances s (next_test_instance_id s) = None"
    using add_test_instance_fresh [OF wf] by (metis prod.collapse add_test_instance_simps(1))
  have reg: "(k2 = k \<and> i = next_test_instance_id s \<and> d' = d) \<or>
      (\<exists>s2. test_suites st k2 = Some s2 \<and> test_instances s2 i = Some d')"
    if "test_suites ?st' k2 = Some s2'" "test_instances s2' i = Some d'" for k2 s2' i d'
    using that k by (auto split: if_splits)
  have "suite_wf ?s'" using add_test_instance_wf [OF wf, of d] by (metis prod.collapse)
  then have "suites_wf ?st'"
    using inv k sk by (auto simp: service_inv_def suites_wf_def)
  moreover have "sessions_wf ?st' w'"
    unfolding sessions_wf_def
  proof (intro allI impI)
    fix k2 s2' i d'
    assume a: "test_suites ?st' k2 = Some s2'" "test_instances s2' i = Some d'"
    show "d' < next_session w' \<and> \<not> br_quit (sessions w' d')"
    proof (cases "k2 = k \<and> i = next_test_instance_id s \<and> d' = d")
      case True
      with n live show ?thesis by simp
    next
      case False
      with reg [OF a] obtain s3 where "test_suites st k2 = Some s3" "test_instances s3 i = Some d'"
        by blast
      with old same n show ?thesis by fastforce
    qed
  qed
  moreover have "sessions_exclusive ?st'"
    using inv k tid old by (auto simp: service_inv_def sessions_exclusive_def split: if_splits)
  ultimately show ?thesis by (simp add: service_inv_def)
qed

lemma service_inv_initiate:
  assumes inv: "service_inv st w" and r: "initiate_test_instance e k opt bi (st, w) = (res, st', w')"
  shows "service_inv st' w'"
  using initiate_test_instance_result [OF r]
proof (elim disjE exE conjE)
  assume "st' = st" "w' = w"
  with inv show ?thesis by simp
next
  fix w1
  assume l: "launch_session e (selenium_preferences (api_url st) bi) w = Inr (next_session w, w1)"
  have w1: "service_inv st w1"
    using inv l by (rule_tac service_inv_world) (auto simp: launch_session_Inr)
  have n1: "next_session w1 = Suc (next_session w)" and live1: "\<not> br_quit (sessions w1 (next_session w))"
    and same1: "\<And>d'. d' \<noteq> next_session w \<Longrightarrow> sessions w1 d' = sessions w d'"
    using l by (auto simp: launch_session_Inr fresh_session_def)
  {
    assume "test_suites st k = None" "st' = st" "w' = w1"
    with w1 show ?thesis by simp
  next
    fix s assume k: "test_suites st k = Some s"
      and st': "st' = st\<lparr>test_suites := (test_suites st)(k \<mapsto> snd (add_test_instance (next_session w) s))\<rparr>"
    {
      assume "w' = w1"
      with inv k st' n1 live1 same1 show ?thesis by (auto intro!: service_inv_register)
    next
      fix b t assume "\<not> br_quit b" "w' = w1\<lparr>sessions := (sessions w1)(next_session w := b), clock := t\<rparr>"
      with inv k st' n1 same1 show ?thesis by (auto intro!: service_inv_register)
    }
  }
qed

lemma service_inv_get_subscription:
  "service_inv st w \<Longrightarrow> get_subscription e args (st, w) = (r, st', w') \<Longrightarrow> service_inv st' w'"
  by (auto simp: get_subscription_def split: sum.splits prod.splits intro: service_inv_initiate)

lemma service_inv_get_notification_status:
  assumes inv: "service_inv st w" and r: "get_notification_status e args (st, w) = (res, st', w')"
  shows "service_inv st' w'"
proof (cases "\<exists>d ms t b. valid_test_id st (js_get args ''testSuiteId'') (js_get args ''testId'') = Inr d \<and>
    missing_required_args args (required_fields GetNotificationStatus) = None \<and>
    poll_messages (harness_of e d) (latency e) (clock w) (sessions w d) = Some (Inr (ms, t, b))")
  case True
  then obtain d ms t b where v: "valid_test_id st (js_get args ''testSuiteId'') (js_get args ''testId'') = Inr d"
    and m: "missing_required_args args (required_fields GetNotificationStatus) = None"
    and p: "poll_messages (harness_of e d) (latency e) (clock w) (sessions w d) = Some (Inr (ms, t, b))"
    by blast
  from r have "st' = st \<and> w' = w\<lparr>sessions := (sessions w)(d := b), clock := t\<rparr>"
    by (simp add: get_notification_status_poll [OF m v] p)
  with inv poll_messages_live [OF p] show ?thesis
    by (simp, rule_tac service_inv_world) auto
next
  case False
  with r have "st' = st \<and> w' = w"
    by (auto simp: get_notification_status_def split: option.splits sum.splits prod.splits)
  with inv show ?thesis by simp
qed

lemma service_inv_end_test_suite:
  "service_inv st w \<Longrightarrow> end_test_suite e args (st, w) = (r, st', w') \<Longrightarrow> service_inv st' w'"
  by (auto simp: end_test_suite_def valid_test_suite_id_Inr
           split: option.splits sum.splits prod.splits intro: service_inv_end_registered)

lemma service_inv_handle:
  assumes inv: "service_inv st w" and h: "handle e ev args (st, w) = (r, st', w')"
  shows "service_inv st' w'"
proof (cases ev)
  case StartTestSuite
  with h have "st' = snd (start_test_suite st) \<and> w' = w"
    by (cases "start_test_suite st") simp
  with inv show ?thesis by (simp add: service_inv_start)
next
  case EndTestSuite
  with inv h show ?thesis by (simp add: service_inv_end_test_suite)
next
  case GetSubscription
  with inv h show ?thesis by (simp add: service_inv_get_subscription)
next
  case GetNotificationStatus
  with inv h show ?thesis by (simp add: service_inv_get_notification_status)
qed

lemma end_suites_result:
  assumes "service_inv st w" and "end_suites e ks (ok, st, w) = (ok', st', w')"
  shows "service_inv st' w' \<and> available_test_suite_id st' = available_test_suite_id st \<and>
         (\<forall>k. test_suites st k = None \<longrightarrow> test_suites st' k = None) \<and>
         (ok' \<longrightarrow> ok \<and> (\<forall>k\<in>set ks. test_suites st' k = None))"
  using assms
proof (induction ks arbitrary: ok st w)
  case Nil
  then show ?case by simp
next
  case (Cons k ks)
  show ?case
  proof (cases "test_suites st k")
    case None
    with Cons show ?thesis by auto
  next
    case (Some s)
    obtain err st1 w1 where r: "end_registered_suite e k s (st, w) = (err, st1, w1)"
      by (cases "end_registered_suite e k s (st, w)") auto
    have inv1: "service_inv st1 w1" by (rule service_inv_end_registered [OF Cons.prems(1) Some r])
    note res = end_registered_suite_result [OF r]
    have rest: "end_suites e ks (err = None \<and> ok, st1, w1) = (ok', st', w')"
      using Cons.prems(2) Some r by (cases err) auto
    note IH = Cons.IH [OF inv1 rest]
    have mono: "test_suites st k' = None \<Longrightarrow> test_suites st1 k' = None" for k'
      using res Some by (auto split: if_splits)
    have del: "ok' \<Longrightarrow> test_suites st1 k = None \<and> ok"
      using IH res by (auto split: if_splits)
    show ?thesis
      using IH res mono del by auto
  qed
qed

lemma end_suites_all_ended:
  assumes inv: "service_inv st w"
    and es: "end_suites e [0..<available_test_suite_id st] (ok, st, w) = (True, st1, w1)"
  shows "test_suites st1 = Map.empty"
proof
  fix k
  note res = end_suites_result [OF inv es]
  show "test_suites st1 k = None"
  proof (cases "k < available_test_suite_id st1")
    case True
    with res show ?thesis by auto
  next
    case False
    with res show ?thesis
      by (cases "test_suites st1 k") (auto simp: service_inv_def suites_wf_def)
  qed
qed

lemma end_suites_ok:
  assumes "service_inv st w"
    and "\<forall>k s. test_suites st k = Some s \<longrightarrow> (\<forall>d\<in>ran (test_instances s). kill_error e d = None)"
    and "end_suites e ks (ok, st, w) = (ok', st', w')"
  shows "ok' = ok"
  using assms
proof (induction ks arbitrary: ok st w)
  case Nil
  then show ?case by simp
next
  case (Cons k ks)
  show ?case
  proof (cases "test_suites st k")
    case None
    with Cons show ?thesis by auto
  next
    case (Some s)
    obtain err st1 w1 where r: "end_registered_suite e k s (st, w) = (err, st1, w1)"
      by (cases "end_registered_suite e k s (st, w)") auto
    have inv1: "service_inv st1 w1" by (rule service_inv_end_registered [OF Cons.prems(1) Some r])
    note res = end_registered_suite_result [OF r]
    from Cons.prems(1) Some have "suite_wf s" by (auto simp: service_inv_def suites_wf_def)
    obtain ds err' s' where es: "end_suite (kill_error e) s = (ds, err', s')"
      by (cases "end_suite (kill_error e) s") auto
    from Cons.prems(2) Some \<open>suite_wf s\<close> have "err' = None"
      by (simp add: end_suite_error [OF es] set_suite_drivers)
    with res es have "err = None" by simp
    with res Cons.prems(2) have kill1:
      "\<forall>k s. test_suites st1 k = Some s \<longrightarrow> (\<forall>d\<in>ran (test_instances s). kill_error e d = None)"
      by auto
    have "end_suites e ks (ok, st1, w1) = (ok', st', w')"
      using Cons.prems(3) Some r \<open>err = None\<close> by simp
    from Cons.IH [OF inv1 kill1 this] show ?thesis .
  qed
qed

lemma service_inv_end_service:
  assumes inv: "service_inv st w" and r: "end_service e (st, w) = (st', w')"
  shows "service_inv st' w'"
proof -
  obtain ok st1 w1 where es: "end_suites e [0..<available_test_suite_id st] (True, st, w) = (ok, st1, w1)"
    by (cases "end_suites e [0..<available_test_suite_id st] (True, st, w)") auto
  note res = end_suites_result [OF inv es]
  have out: "st' = (if ok then st1\<lparr>available_test_suite_id := 0\<rparr> else st1) \<and> w' = w1"
    using r es by (simp add: end_service_def)
  show ?thesis
  proof (cases ok)
    case True
    with out end_suites_all_ended [OF inv] es show ?thesis
      by (simp add: service_inv_def suites_wf_def sessions_wf_def sessions_exclusive_def)
  next
    case False
    with out res show ?thesis by simp
  qed
qed

lemma reachable_inv: "reachable e sw \<Longrightarrow> service_inv (fst sw) (snd sw)"
proof (induction rule: reachable.induct)
  case (init port bs vs)
  then show ?case by (simp add: service_inv_init)
next
  case (request sw ev args r sw')
  then show ?case by (cases sw; cases sw') (auto intro: service_inv_handle)
next
  case (stop sw)
  then show ?case
    by (cases sw; cases "end_service e sw") (auto intro: service_inv_end_service)
qed

lemma end_test_suite_suites_only:
  "end_test_suite e args (st, w) = (r, st', w') \<Longrightarrow> st' = st\<lparr>test_suites := test_suites st'\<rparr>"
  by (auto simp: end_test_suite_def split: option.splits sum.splits prod.splits
           dest!: end_registered_suite_result)

lemma get_subscription_suites_only:
  "get_subscription e args (st, w) = (r, st', w') \<Longrightarrow> st' = st\<lparr>test_suites := test_suites st'\<rparr>"
  by (auto simp: get_subscription_def split: sum.splits prod.splits
           dest!: initiate_test_instance_result)

lemma get_notification_status_state:
  "get_notification_status e args (st, w) = (r, st', w') \<Longrightarrow> st' = st"
  by (auto simp: get_notification_status_def split: option.splits sum.splits prod.splits)

lemma handle_available:
  assumes "handle e ev args (st, w) = (r, st', w')"
  shows "available_test_suite_id st' =
           (if ev = StartTestSuite then Suc (available_test_suite_id st) else available_test_suite_id st) \<and>
         (ev = StartTestSuite \<longrightarrow> started_id r = Some (int (available_test_suite_id st)))"
proof (cases ev)
  case StartTestSuite
  with assms show ?thesis by (auto simp: start_test_suite_def Let_def started_id_def)
next
  case EndTestSuite
  with assms end_test_suite_suites_only [of e args st w r st' w'] show ?thesis by (cases st, cases st') simp
next
  case GetSubscription
  with assms get_subscription_suites_only [of e args st w r st' w'] show ?thesis by (cases st, cases st') simp
next
  case GetNotificationStatus
  with assms show ?thesis by (auto dest: get_notification_status_state)
qed

lemma serve_started_ids:
  "serve e rqs sw = (rs, sw') \<Longrightarrow>
     sorted_wrt (<) (started_ids rqs rs) \<and>
     (\<forall>i\<in>set (started_ids rqs rs). int (available_test_suite_id (fst sw)) \<le> i) \<and>
     available_test_suite_id (fst sw) \<le> available_test_suite_id (fst sw')"
proof (induction rqs arbitrary: sw rs sw')
  case Nil
  then show ?case by (simp add: started_ids_def map_filter_simps)
next
  case (Cons rq rqs)
  obtain ev args where rq: "rq = (ev, args)" by (cases rq)
  obtain r sw1 where h: "handle e ev args sw = (r, sw1)" by (cases "handle e ev args sw")
  obtain rs1 sw2 where s: "serve e rqs sw1 = (rs1, sw2)" by (cases "serve e rqs sw1")
  have rs: "rs = r # rs1" "sw' = sw2" using Cons.prems rq h s by simp_all
  note IH = Cons.IH [OF s]
  have av: "available_test_suite_id (fst sw1) =
              (if ev = StartTestSuite then Suc (available_test_suite_id (fst sw)) else available_test_suite_id (fst sw)) \<and>
            (ev = StartTestSuite \<longrightarrow> started_id r = Some (int (available_test_suite_id (fst sw))))"
    using handle_available [of e ev args "fst sw" "snd sw" r "fst sw1" "snd sw1"] h by simp
  have ids: "started_ids (rq # rqs) rs =
               (if ev = StartTestSuite then the (started_id r) # started_ids rqs rs1 else started_ids rqs rs1)"
    using av by (auto simp: started_ids_def rq rs map_filter_simps)
  show ?case
    using IH av ids rs by (fastforce split: if_splits)
qed

section \<open>Properties of every reachable state\<close>

text \<open>C1: In every state the service reaches, each test instance registered in
  a suite is driven by a session that was launched and has not been quit.\<close>

theorem registered_sessions_live:
  "reachable e (st, w) \<Longrightarrow> test_suites st k = Some s \<Longrightarrow> test_instances s i = Some d \<Longrightarrow>
     d < next_session w \<and> \<not> br_quit (sessions w d)"
  using reachable_inv [of e "(st, w)"] by (auto simp: service_inv_def sessions_wf_def)

text \<open>C2: In every reachable state no session drives two test instances, in the
  same suite or in two suites.\<close>

theorem sessions_never_shared:
  "reachable e (st, w) \<Longrightarrow>
     test_suites st k1 = Some s1 \<Longrightarrow> test_instances s1 i1 = Some d \<Longrightarrow>
     test_suites st k2 = Some s2 \<Longrightarrow> test_instances s2 i2 = Some d \<Longrightarrow> k1 = k2 \<and> i1 = i2"
  using reachable_inv [of e "(st, w)"] by (simp add: service_inv_def sessions_exclusive_def)

text \<open>C4: In every reachable state a suite is stored under its own identifier,
  that identifier is below the suite counter, and every instance identifier of
  the suite is below the suite's instance counter.\<close>

theorem suite_ids_below_counter:
  "reachable e (st, w) \<Longrightarrow> test_suites st k = Some s \<Longrightarrow>
     suite_id s = k \<and> k < available_test_suite_id st \<and>
     (\<forall>i \<in> dom (test_instances s). i < next_test_instance_id s)"
  using reachable_inv [of e "(st, w)"] by (auto simp: service_inv_def suites_wf_def suite_wf_def)

text \<open>C3: Within one run of requests, the suite identifiers answered to the
  start-test-suite requests are strictly increasing: no identifier is handed
  out twice, whatever the other requests do.\<close>

theorem start_ids_increasing: "sorted_wrt (<) (started_ids rqs (fst (serve e rqs sw)))"
  using serve_started_ids [of e rqs sw] by (cases "serve e rqs sw") simp

text \<open>C14: Stopping the service when every session quits cleanly deletes every
  suite and resets the suite counter, so the next start-test-suite request is
  answered with identifier 0 again.\<close>

theorem end_service_reuses_ids:
  assumes r: "reachable e sw"
    and kill: "\<forall>k s. test_suites (fst sw) k = Some s \<longrightarrow> (\<forall>d\<in>ran (test_instances s). kill_error e d = None)"
  shows "test_suites (fst (end_service e sw)) = Map.empty \<and>
         started_id (fst (handle e StartTestSuite args (end_service e sw))) = Some 0"
proof -
  obtain st w where sw: "sw = (st, w)" by (cases sw)
  have inv: "service_inv st w" using reachable_inv [OF r] sw by simp
  obtain ok st1 w1 where es: "end_suites e [0..<available_test_suite_id st] (True, st, w) = (ok, st1, w1)"
    by (cases "end_suites e [0..<available_test_suite_id st] (True, st, w)") auto
  have ok: "ok" using end_suites_ok [OF inv _ es] kill sw by simp
  have empty: "test_suites st1 = Map.empty" using end_suites_all_ended [OF inv] es ok by simp
  have stop: "end_service e sw = (st1\<lparr>available_test_suite_id := 0\<rparr>, w1)"
    using es ok sw by (simp add: end_service_def)
  obtain r' st2 w2 where h: "handle e StartTestSuite args (st1\<lparr>available_test_suite_id := 0\<rparr>, w1) = (r', st2, w2)"
    by (cases "handle e StartTestSuite args (st1\<lparr>available_test_suite_id := 0\<rparr>, w1)") auto
  show ?thesis
    using handle_available [OF h] h stop empty by simp
qed

section \<open>Isolation and ending of suites\<close>

lemma end_test_suite_isolated:
  assumes inv: "service_inv st w" and h: "end_test_suite e args (st, w) = (r, st', w')"
    and other: "js_get args ''testSuiteId'' \<noteq> Some (JNum (int k'))"
  shows "untouched st w st' w' k'"
proof (cases "\<exists>k s. missing_required_args args (required_fields EndTestSuite) = None \<and>
                   valid_test_suite_id st (js_get args ''testSuiteId'') = Inr (k, s)")
  case True
  then obtain k s where m: "missing_required_args args (required_fields EndTestSuite) = None"
    and v: "valid_test_suite_id st (js_get args ''testSuiteId'') = Inr (k, s)" by blast
  from v other have k: "test_suites st k = Some s" "k \<noteq> k'" by (auto simp: valid_test_suite_id_Inr)
  obtain err sw' where er: "end_registered_suite e k s (st, w) = (err, sw')"
    by (cases "end_registered_suite e k s (st, w)")
  have sw': "sw' = (st', w')" using h m v er by (cases err) (simp_all add: end_test_suite_def)
  note res = end_registered_suite_result [OF er [unfolded sw']]
  from inv k(1) have wf: "suite_wf s" by (auto simp: service_inv_def suites_wf_def)
  have "sessions w' d = sessions w d" if "test_suites st k' = Some s2" "test_instances s2 i = Some d" for s2 i d
  proof -
    have "d \<notin> ran (test_instances s)"
      using inv k that by (auto simp: service_inv_def sessions_exclusive_def ran_def)
    then have "d \<notin> set (fst (end_suite (kill_error e) s))"
      using end_suite_quit_drivers [of "kill_error e" s] wf by (auto simp: set_suite_drivers)
    with res show ?thesis by simp
  qed
  with res k show ?thesis by (auto simp: untouched_def)
next
  case False
  with h have "st' = st \<and> w' = w"
    by (auto simp: end_test_suite_def split: option.splits sum.splits)
  then show ?thesis by (simp add: untouched_def)
qed

lemma get_subscription_isolated:
  assumes inv: "service_inv st w" and h: "get_subscription e args (st, w) = (r, st', w')"
    and other: "js_get args ''testSuiteId'' \<noteq> Some (JNum (int k'))"
  shows "untouched st w st' w' k'"
proof (cases "get_subscription_checks (local_browser e) st args")
  case (Inl x)
  with h show ?thesis by (simp add: get_subscription_def untouched_def)
next
  case (Inr kbo)
  then obtain k bi opt where c: "get_subscription_checks (local_browser e) st args = Inr (k, bi, opt)"
    by (cases kbo) auto
  from get_subscription_checks_Inr [OF c] other have kk: "k \<noteq> k'"
    by (auto simp: valid_test_suite_id_Inr)
  obtain res where i: "initiate_test_instance e k opt bi (st, w) = (res, st', w')"
    using h c by (auto simp: get_subscription_def split: prod.splits)
  have fresh: "d \<noteq> next_session w" if "test_suites st k' = Some s2" "test_instances s2 i = Some d" for s2 i d
    using inv that by (fastforce simp: service_inv_def sessions_wf_def)
  from initiate_test_instance_result [OF i] fresh kk show ?thesis
    by (auto simp: untouched_def launch_session_Inr)
qed

lemma get_notification_status_isolated:
  assumes inv: "service_inv st w" and h: "get_notification_status e args (st, w) = (r, st', w')"
    and other: "js_get args ''testSuiteId'' \<noteq> Some (JNum (int k'))"
  shows "untouched st w st' w' k'"
proof (cases "\<exists>d ms t b. valid_test_id st (js_get args ''testSuiteId'') (js_get args ''testId'') = Inr d \<and>
    missing_required_args args (required_fields GetNotificationStatus) = None \<and>
    poll_messages (harness_of e d) (latency e) (clock w) (sessions w d) = Some (Inr (ms, t, b))")
  case True
  then obtain d ms t b where v: "valid_test_id st (js_get args ''testSuiteId'') (js_get args ''testId'') = Inr d"
    and m: "missing_required_args args (required_fields GetNotificationStatus) = None"
    and p: "poll_messages (harness_of e d) (latency e) (clock w) (sessions w d) = Some (Inr (ms, t, b))"
    by blast
  from v obtain k s j where k: "js_get args ''testSuiteId'' = Some (JNum (int k))" "test_suites st k = Some s"
    "get_test_instance s j = Some d" by (auto simp: valid_test_id_Inr)
  have kk: "k \<noteq> k'" using k(1) other by auto
  have dk: "test_instances s (nat j) = Some d" using k(3) by (simp add: get_test_instance_def split: if_splits)
  have "d' \<noteq> d" if "test_suites st k' = Some s2" "test_instances s2 i = Some d'" for s2 i d'
    using inv that k(2) dk kk by (auto simp: service_inv_def sessions_exclusive_def)
  moreover from h have "st' = st \<and> w' = w\<lparr>sessions := (sessions w)(d := b), clock := t\<rparr>"
    by (simp add: get_notification_status_poll [OF m v] p)
  ultimately show ?thesis by (auto simp: untouched_def)
next
  case False
  with h have "st' = st \<and> w' = w"
    by (auto simp: get_notification_status_def split: option.splits sum.splits prod.splits)
  then show ?thesis by (simp add: untouched_def)
qed

text \<open>C19: Suites are isolated: a request other than start-test-suite changes
  no suite but the one its testSuiteId names, nor any session driving an
  instance of another suite.\<close>

theorem requests_isolated:
  "reachable e (st, w) \<Longrightarrow> handle e ev args (st, w) = (r, st', w') \<Longrightarrow> ev \<noteq> StartTestSuite \<Longrightarrow>
     js_get args ''testSuiteId'' \<noteq> Some (JNum (int k')) \<Longrightarrow>
     test_suites st' k' = test_suites st k' \<and>
     (\<forall>s i d. test_suites st k' = Some s \<longrightarrow> test_instances s i = Some d \<longrightarrow> sessions w' d = sessions w d)"
  using reachable_inv [of e "(st, w)"]
  by (cases ev) (auto dest: end_test_suite_isolated get_subscription_isolated get_notification_status_isolated
                      simp: untouched_def)

text \<open>C20: end-test-suite on a live suite answers success exactly when every
  session of the suite quits without error; each session whose quit succeeds
  is quit; on success the suite is deleted, otherwise it stays with no
  instances.\<close>

theorem end_test_suite_result:
  assumes r: "reachable e (st, w)"
    and m: "missing_required_args args (required_fields EndTestSuite) = None"
    and v: "valid_test_suite_id st (js_get args ''testSuiteId'') = Inr (k, s)"
    and h: "end_test_suite e args (st, w) = (res, st', w')"
  shows "(res = Some (ValidResponse None) \<longleftrightarrow> (\<forall>d\<in>ran (test_instances s). kill_error e d = None)) \<and>
         (\<forall>d\<in>ran (test_instances s). kill_error e d = None \<longrightarrow> br_quit (sessions w' d)) \<and>
         test_suites st' k = (if res = Some (ValidResponse None) then None
                              else Some (s\<lparr>test_instances := Map.empty\<rparr>))"
proof -
  have inv: "service_inv st w" using reachable_inv [OF r] by simp
  from v have k: "test_suites st k = Some s" by (simp add: valid_test_suite_id_Inr)
  with inv have wf: "suite_wf s" by (auto simp: service_inv_def suites_wf_def)
  obtain ds err s' where es: "end_suite (kill_error e) s = (ds, err, s')"
    by (cases "end_suite (kill_error e) s") auto
  obtain err' sw' where er: "end_registered_suite e k s (st, w) = (err', sw')"
    by (cases "end_registered_suite e k s (st, w)")
  have out: "res = (case err' of None \<Rightarrow> Some (ValidResponse None)
                     | Some m \<Rightarrow> Some (ErrorResponse ''webdriver_issue'' (subscription_prefix @ m)))"
      "sw' = (st', w')"
    using h m v er by (cases err'; simp add: end_test_suite_def)+
  note res = end_registered_suite_result [OF er [unfolded out(2)], unfolded es, simplified]
  have ok: "err = None \<longleftrightarrow> (\<forall>d\<in>ran (test_instances s). kill_error e d = None)"
    using end_suite_error [OF es] wf by (simp add: set_suite_drivers)
  have q: "set ds = {d \<in> ran (test_instances s). kill_error e d = None}"
    using end_suite_quit [OF es] wf by (simp add: set_suite_drivers)
  show ?thesis
    using res ok q out(1) by (auto simp: quit_sessions_quit split: option.splits)
qed

end
