(* ===== verification/Spec2Isabelle.thy ===== *)
theory Spec2Isabelle
  imports Service
begin

text \<open>
  \<^bold>\<open>A verification model of web-push-testing-service.\<close>

  The program (\<open>src/src/index.js\<close>) is an HTTP service, the class \<open>WPTS\<close>,
  that drives real browsers through WebDriver to test push notifications.
  A client starts a test suite, asks for a push subscription from a given
  browser under the suite (the service launches a browser session, opens the
  in-page harness, has it register a service worker and subscribe), sends a
  push message to that subscription itself, and polls the service for the
  messages the page received; it finally ends the suite, which quits its
  browsers. The parts and where they are modelled:

  \<^item> \<open>Prelude\<close>: the JavaScript values that cross the boundaries (JSON
    arguments, script results) and the built-ins the code relies on
    (\<open>typeof\<close>, truthiness, string conversion, \<open>join\<close>, \<open>indexOf\<close>,
    \<open>Object.keys\<close>); promises as \<open>('e + 'a) option\<close>, \<^const>\<open>None\<close> being
    a promise that never settles, chained by \<open>pthen\<close>.
  \<^item> \<open>Api_Server\<close>: the transport (\<open>src/server/api-server.js\<close>, not among the
    sources, modelled from the specification): responses, their status and
    body, routing of the four events.
  \<^item> \<open>Test_Suite\<close>: the suite object (\<open>src/model/test-suite.js\<close>, modelled
    from the specification): an instance counter and a map from instance
    identifiers to the session that drives each instance; \<open>end\<close> quits them
    all.
  \<^item> \<open>Browser_Session\<close>: the WebDriver capability (external, modelled from
    the specification and from the library's documented behaviour): a session
    record over an abstract page, \<open>executeScript\<close>, \<open>get\<close>, \<open>quit\<close>, and
    \<open>wait\<close> as the \<^theory_text>\<open>partial_function\<close> \<open>sel_wait\<close>, with its
    partial-correctness rule, its termination when it has a timeout, and its
    divergence when it has none and the condition never holds.
  \<^item> \<open>Test_Instance\<close>: the page state the harness exposes, every script the
    code runs in the page, the subscription chain of \<open>initiateTestInstance\<close>
    (lines 281 to 361) and the poll-and-drain of \<open>getNotificationStatus\<close>
    (lines 217 to 238).
  \<^item> \<open>Wpts\<close>: the fields of \<open>WPTS\<close>, its constructor, \<open>downloadBrowsers\<close>,
    \<open>startTestSuite\<close> and all argument validation.
  \<^item> \<open>Handlers\<close>: the handlers that touch browsers and the dispatch, over
    the state \<open>(wpts, world)\<close>, where the world holds the sessions, their
    launch preferences, the next session identifier and the clock; an
    environment record fixes the installed browsers, the harness of each
    session, the latency of a script and launch and quit failures.
  \<^item> \<open>Service\<close>: runs of the service. \<open>reachable\<close> is the inductive set
    of states a new \<open>WPTS\<close> reaches by any request and by \<open>endService\<close>;
    \<open>serve\<close> answers a list of requests one after the other. The invariant
    \<open>service_inv\<close> (suites stored under their own id below the counter and
    well formed, every registered instance driven by a launched, open
    session, no session shared) is kept by every handler, which gives the
    properties of every reachable state by rule induction. Over \<open>serve\<close>
    the ids answered to start-test-suite strictly increase; \<open>endService\<close>
    resets the counter once every suite ended cleanly.
  \<^item> This theory: a concrete service (port 8090, the default browser lists,
    an environment with a harness that loads at once and one that never
    loads), a run on it (start a suite, get a Chrome subscription), and the
    witnesses of the properties on that run, computed by \<open>simp\<close> and
    \<open>code_simp\<close>.

  What the groups of lemmas show: the validation of every handler on every
  branch (missing arguments, ids that are not numbers or name nothing,
  browser name and version outside the allow-lists, the Firefox bound, the
  VAPID key), each an error answer with no effect on state; the success of
  get-subscription (the answer names the instance just registered in the
  suite the request names, no other suite changes, and a new open session
  drives it) and its divergence when the harness never loads; the isolation
  of suites (a request changes no other suite nor any session of one); the
  result of end-test-suite (success exactly when every quit succeeds);
  get-notification-status always answers, never with an empty list, and
  drains the buffer once; the invariants of reachable states above.

  Time is in milliseconds; a script takes the environment's latency, the
  polling condition of \<open>getNotificationStatus\<close> sleeps 500 ms when the buffer
  is empty and its wait gives up at 60000 ms, as the code says; the harness
  waits of \<open>initiateTestInstance\<close> have no timeout (\<open>driver.wait(cond)\<close>),
  so they are modelled as waits that may never settle.
  No fuel is needed: \<open>sel_wait\<close> is a partial function whose value
  \<^const>\<open>None\<close> is a wait that never returns; with a positive timeout and a
  positive cost per poll it always returns, by induction on the time left
  (\<open>sel_wait_terminates\<close>), and with no timeout and a condition that stays
  false it never does (\<open>sel_wait_diverges\<close>).

  Requests are served one at a time: the model does not interleave the
  promise chains of two requests (the code does, since every handler returns
  at its first \<open>await\<close>), so a suite ended while a subscription for it is
  still being set up is not modelled.

  Not modelled: logging, deleting \<open>./temp\<close>, browser downloads themselves
  (only the list of downloads is), the HTTP server's own lifecycle, and the
  content of pages after a failed subscription.
\<close>

section \<open>A concrete service used by the witnesses\<close>

definition demo_page :: pts_state where
  "demo_page = \<lparr>pts_loaded = True, pts_started = False, pts_sw_registered = None,
                pts_subscription = None, pts_received = []\<rparr>"

definition demo_env :: env where
  "demo_env = \<lparr>local_browser = (\<lambda>b v. Some \<lparr>bi_id = b, bi_version = 60\<rparr>),
               harness_of = (\<lambda>d t p. p), latency = 10,
               launch_error = (\<lambda>d. None), kill_error = (\<lambda>d. None)\<rparr>"

definition demo_wpts :: wpts where
  "demo_wpts = snd (start_test_suite (new_wpts 8090 None None))"

definition demo_session :: session where
  "demo_session = \<lparr>br_quit = False, br_url = ''http://localhost:8090/'',
                   br_page = Some (demo_page\<lparr>pts_received := [''hello'']\<rparr>)\<rparr>"

definition demo_suite :: test_suite where
  "demo_suite = snd (add_test_instance 0 (new_test_suite 0))"

definition demo_wpts1 :: wpts where
  "demo_wpts1 = demo_wpts\<lparr>test_suites := [0 \<mapsto> demo_suite]\<rparr>"

definition demo_world1 :: world where
  "demo_world1 = init_world\<lparr>sessions := (sessions init_world)(0 := demo_session), next_session := 1\<rparr>"

definition demo_poll_args :: js_object where
  "demo_poll_args = [(''testSuiteId'', JNum 0), (''testId'', JNum 0)]"

text \<open>A harness that loads a page whose service worker registers and whose
  subscription succeeds, on the first poll after the navigation.\<close>

definition demo_loaded :: pts_state where
  "demo_loaded = \<lparr>pts_loaded = True, pts_started = False, pts_sw_registered = Some (JObj []),
                  pts_subscription = Some (JObj [(''endpoint'', JStr ''https://push.example/1'')]),
                  pts_received = []\<rparr>"

definition demo_env2 :: env where
  "demo_env2 = \<lparr>local_browser = (\<lambda>b v. Some \<lparr>bi_id = b, bi_version = 60\<rparr>),
                harness_of = (\<lambda>d t p. case p of None \<Rightarrow> Some demo_loaded | Some s \<Rightarrow> Some s),
                latency = 10, launch_error = (\<lambda>d. None), kill_error = (\<lambda>d. None)\<rparr>"

definition demo_sub_args :: js_object where
  "demo_sub_args = [(''testSuiteId'', JNum 0), (''browserName'', JStr ''chrome''),
                    (''browserVersion'', JStr ''stable'')]"

text \<open>A run: a fresh service on port 8090 starts suite 0, then a Chrome stable
  subscription is requested under it.\<close>

definition demo_run0 :: "wpts \<times> world" where
  "demo_run0 = snd (handle demo_env2 StartTestSuite [] (new_wpts 8090 None None, init_world))"

definition demo_run :: "wpts \<times> world" where
  "demo_run = snd (handle demo_env2 GetSubscription demo_sub_args demo_run0)"

definition demo_run_suite :: test_suite where
  "demo_run_suite = the (test_suites (fst demo_run) 0)"

definition demo_bad_browser_args :: js_object where
  "demo_bad_browser_args = [(''testSuiteId'', JNum 0), (''browserName'', JStr ''safari''),
                            (''browserVersion'', JStr ''stable'')]"

definition demo_firefox_args :: js_object where
  "demo_firefox_args = [(''testSuiteId'', JNum 0), (''browserName'', JStr ''firefox''),
                        (''browserVersion'', JStr ''stable'')]"

definition demo_firefox49 :: "string \<Rightarrow> string \<Rightarrow> browser_info option" where
  "demo_firefox49 b v = Some \<lparr>bi_id = b, bi_version = 49\<rparr>"

definition demo_vapid_args :: "jsval \<Rightarrow> js_object" where
  "demo_vapid_args k = demo_sub_args @ [(''vapidPublicKey'', k)]"

definition demo_details :: jsval where
  "demo_details = JObj [(''testId'', JNum 0),
                        (''subscription'', JObj [(''endpoint'', JStr ''https://push.example/1'')])]"

definition demo_end_args :: "nat \<Rightarrow> js_object" where
  "demo_end_args k = [(''testSuiteId'', JNum (int k))]"

definition demo_end :: "nat \<Rightarrow> response option \<times> wpts \<times> world" where
  "demo_end k = handle demo_env2 EndTestSuite (demo_end_args k) demo_run"

lemmas demo_defs = demo_env_def demo_wpts_def demo_wpts1_def demo_world1_def demo_session_def
  demo_suite_def demo_page_def demo_poll_args_def init_world_def

section \<open>Witnesses of the validation properties\<close>

text \<open>An unknown suite number (the integration test's \<open>99999999\<close>) under
  \<open>get-notification-status\<close>.\<close>

theorem unknown_suite_rejected_witness:
  "GetNotificationStatus \<noteq> StartTestSuite \<and>
   missing_required_args [(''testSuiteId'', JNum 99999999), (''testId'', JNum 0)]
     (required_fields GetNotificationStatus) = None \<and>
   js_get [(''testSuiteId'', JNum 99999999), (''testId'', JNum 0)] ''testSuiteId'' = Some (JNum 99999999) \<and>
   suite_lookup demo_wpts 99999999 = None \<and>
   handle demo_env GetNotificationStatus [(''testSuiteId'', JNum 99999999), (''testId'', JNum 0)]
     (demo_wpts, init_world) =
   (Some (ErrorResponse ''invalid_test_suite_id''
            (''testSuiteId passed in doesn't exist: '' @ str_of_int 99999999 @ ''.'')),
    demo_wpts, init_world)"
proof -
  have h: "GetNotificationStatus \<noteq> StartTestSuite \<and>
   missing_required_args [(''testSuiteId'', JNum 99999999), (''testId'', JNum 0)]
     (required_fields GetNotificationStatus) = None \<and>
   js_get [(''testSuiteId'', JNum 99999999), (''testId'', JNum 0)] ''testSuiteId'' = Some (JNum 99999999) \<and>
   suite_lookup demo_wpts 99999999 = None"
    by (simp add: missing_required_args_def js_simps suite_lookup_def demo_wpts_def
                  start_test_suite_def new_wpts_def)
  then show ?thesis
    using Handlers.unknown_suite_rejected [of GetNotificationStatus] by blast
qed

text \<open>A \<open>get-subscription\<close> with no body at all.\<close>

theorem missing_args_rejected_witness:
  "GetSubscription \<noteq> StartTestSuite \<and>
   missing_required_args [] (required_fields GetSubscription) =
     Some (ErrorResponse ''missing_required_args''
       ''Required arguments are missing. Required fields: testSuiteId, browserName, browserVersion. Received: '') \<and>
   handle demo_env GetSubscription [] (demo_wpts, init_world) =
     (Some (ErrorResponse ''missing_required_args''
       ''Required arguments are missing. Required fields: testSuiteId, browserName, browserVersion. Received: ''),
      demo_wpts, init_world)"
proof -
  have h: "missing_required_args [] (required_fields GetSubscription) =
     Some (ErrorResponse ''missing_required_args''
       ''Required arguments are missing. Required fields: testSuiteId, browserName, browserVersion. Received: '')"
    by (simp add: missing_required_args_def js_simps)
  then show ?thesis using Handlers.missing_args_rejected [OF _ h] by simp
qed

text \<open>An empty string as \<open>testSuiteId\<close> under \<open>end-test-suite\<close>.\<close>

theorem non_numeric_suite_id_rejected_witness:
  "EndTestSuite \<noteq> StartTestSuite \<and>
   missing_required_args [(''testSuiteId'', JStr [])] (required_fields EndTestSuite) = None \<and>
   (\<forall>i. js_get [(''testSuiteId'', JStr [])] ''testSuiteId'' \<noteq> Some (JNum i)) \<and>
   handle demo_env EndTestSuite [(''testSuiteId'', JStr [])] (demo_wpts, init_world) =
     (Some (ErrorResponse ''invalid_variable_type'' ''testSuiteId should be a number, found string.''),
      demo_wpts, init_world)"
proof -
  have h: "missing_required_args [(''testSuiteId'', JStr [])] (required_fields EndTestSuite) = None"
    "\<forall>i. js_get [(''testSuiteId'', JStr [])] ''testSuiteId'' \<noteq> Some (JNum i)"
    by (simp_all add: missing_required_args_def js_simps)
  then show ?thesis
    using Handlers.non_numeric_suite_id_rejected [of EndTestSuite, OF _ h] by (simp add: js_simps)
qed

theorem missing_required_args_None_witness:
  "distinct (required_fields GetNotificationStatus) \<and> distinct (js_keys demo_poll_args) \<and>
   (missing_required_args demo_poll_args (required_fields GetNotificationStatus) = None \<longleftrightarrow>
    (\<forall>k \<in> set (required_fields GetNotificationStatus). \<exists>v. js_get demo_poll_args k = Some v \<and> v \<noteq> JNull)) \<and>
   missing_required_args demo_poll_args (required_fields GetNotificationStatus) = None"
proof -
  have d: "distinct (required_fields GetNotificationStatus)" "distinct (js_keys demo_poll_args)"
    by (simp_all add: demo_poll_args_def js_simps)
  have "\<forall>k \<in> set (required_fields GetNotificationStatus). \<exists>v. js_get demo_poll_args k = Some v \<and> v \<noteq> JNull"
    by (simp add: demo_poll_args_def js_simps)
  with Wpts.missing_required_args_None [OF d] d show ?thesis by simp
qed

section \<open>Witnesses of the polling properties\<close>

lemma demo_poll_first:
  "get_notification_status demo_env demo_poll_args (demo_wpts1, demo_world1) =
     (Some (ValidResponse (Some (JObj [(''messages'', JArr [JStr ''hello''])]))), demo_wpts1,
      demo_world1\<lparr>sessions := (sessions demo_world1)(0 := demo_session\<lparr>br_page :=
         Some (demo_page\<lparr>pts_received := []\<rparr>)\<rparr>), clock := 10\<rparr>)"
  by (simp add: get_notification_status_def demo_defs missing_required_args_def js_simps
      valid_test_id_def valid_test_suite_id_def suite_lookup_def get_test_instance_def
      add_test_instance_def new_test_suite_def poll_messages_immediate)

theorem notification_status_nonempty_witness:
  "get_notification_status demo_env demo_poll_args (demo_wpts1, demo_world1) =
     (Some (ValidResponse (Some (JObj [(''messages'', JArr [JStr ''hello''])]))), demo_wpts1,
      demo_world1\<lparr>sessions := (sessions demo_world1)(0 := demo_session\<lparr>br_page :=
         Some (demo_page\<lparr>pts_received := []\<rparr>)\<rparr>), clock := 10\<rparr>) \<and>
   [JStr ''hello''] \<noteq> []"
  using Handlers.notification_status_nonempty [OF demo_poll_first] demo_poll_first by simp

theorem drain_exactly_once_witness:
  "missing_required_args demo_poll_args (required_fields GetNotificationStatus) = None \<and>
   valid_test_id demo_wpts1 (js_get demo_poll_args ''testSuiteId'') (js_get demo_poll_args ''testId'') = Inr 0 \<and>
   \<not> br_quit (sessions demo_world1 0) \<and>
   br_page (sessions demo_world1 0) = Some (demo_page\<lparr>pts_received := [''hello'']\<rparr>) \<and>
   pts_received (demo_page\<lparr>pts_received := [''hello'']\<rparr>) \<noteq> [] \<and>
   (\<forall>t q. \<exists>q'. harness_of demo_env 0 t (Some q) = Some q' \<and> pts_received q' = pts_received q) \<and>
   (\<exists>w1. get_notification_status demo_env demo_poll_args (demo_wpts1, demo_world1) =
          (Some (ValidResponse (Some (JObj [(''messages'', JArr [JStr ''hello''])]))), demo_wpts1, w1) \<and>
        fst (get_notification_status demo_env demo_poll_args (demo_wpts1, w1)) =
          Some (ErrorResponse ''web_driver_error''
            (''An error occured while attempting to check the notification status. '' @
             drv_error_message (WaitTimeout 60000)))) \<and>
   drv_error_message (WaitTimeout 60000) = ''Wait timed out after 60000ms''"
proof -
  have h: "missing_required_args demo_poll_args (required_fields GetNotificationStatus) = None"
    "valid_test_id demo_wpts1 (js_get demo_poll_args ''testSuiteId'') (js_get demo_poll_args ''testId'') = Inr 0"
    "\<not> br_quit (sessions demo_world1 0)"
    "br_page (sessions demo_world1 0) = Some (demo_page\<lparr>pts_received := [''hello'']\<rparr>)"
    "pts_received (demo_page\<lparr>pts_received := [''hello'']\<rparr>) \<noteq> []"
    "\<forall>t q. \<exists>q'. harness_of demo_env 0 t (Some q) = Some q' \<and> pts_received q' = pts_received q"
    by (simp_all add: demo_defs missing_required_args_def js_simps valid_test_id_def
        valid_test_suite_id_def suite_lookup_def get_test_instance_def add_test_instance_def new_test_suite_def)
  have m: "drv_error_message (WaitTimeout 60000) = ''Wait timed out after 60000ms''"
    by (simp add: str_of_nat.simps)
  from Handlers.drain_exactly_once [OF h] h m show ?thesis by simp
qed

section \<open>Witnesses of the properties of reachable states\<close>

lemma demo_run_reachable: "reachable demo_env2 demo_run"
proof -
  have "reachable demo_env2 (new_wpts 8090 None None, init_world)" by (rule reachable.init)
  then have "reachable demo_env2 demo_run0"
    unfolding demo_run0_def by (rule reachable.request) (rule prod.collapse [symmetric])
  then show ?thesis
    unfolding demo_run_def by (rule reachable.request) (rule prod.collapse [symmetric])
qed

lemma demo_run_suite_0: "test_suites (fst demo_run) 0 = Some demo_run_suite"
proof -
  have "test_suites (fst demo_run) 0 \<noteq> None" by code_simp
  then show ?thesis by (auto simp: demo_run_suite_def)
qed

lemma demo_run_instance_0: "test_instances demo_run_suite 0 = Some 0"
  by code_simp

theorem registered_sessions_live_witness:
  "reachable demo_env2 (fst demo_run, snd demo_run) \<and> test_suites (fst demo_run) 0 = Some demo_run_suite \<and>
   test_instances demo_run_suite 0 = Some 0 \<and>
   0 < next_session (snd demo_run) \<and> \<not> br_quit (sessions (snd demo_run) 0)"
  using registered_sessions_live [OF _ demo_run_suite_0 demo_run_instance_0, of demo_env2]
    demo_run_reachable demo_run_suite_0 demo_run_instance_0 by simp

theorem sessions_never_shared_witness:
  "reachable demo_env2 (fst demo_run, snd demo_run) \<and> test_suites (fst demo_run) 0 = Some demo_run_suite \<and>
   test_instances demo_run_suite 0 = Some 0 \<and> (0::nat) = 0 \<and> (0::nat) = 0"
  using sessions_never_shared [OF _ demo_run_suite_0 demo_run_instance_0 demo_run_suite_0 demo_run_instance_0,
      of demo_env2] demo_run_reachable demo_run_suite_0 demo_run_instance_0 by simp

theorem suite_ids_below_counter_witness:
  "reachable demo_env2 (fst demo_run, snd demo_run) \<and> test_suites (fst demo_run) 0 = Some demo_run_suite \<and>
   suite_id demo_run_suite = 0 \<and> 0 < available_test_suite_id (fst demo_run)"
  using suite_ids_below_counter [OF _ demo_run_suite_0, where e = demo_env2 and w = "snd demo_run"] demo_run_reachable demo_run_suite_0
  by simp

theorem end_service_reuses_ids_witness:
  "reachable demo_env2 demo_run \<and>
   kill_error demo_env2 = (\<lambda>d. None) \<and>
   test_suites (fst (end_service demo_env2 demo_run)) = Map.empty \<and>
   started_id (fst (handle demo_env2 StartTestSuite [] (end_service demo_env2 demo_run))) = Some 0"
  using end_service_reuses_ids [OF demo_run_reachable, of "[]"] demo_run_reachable
  by (simp add: demo_env2_def)

section \<open>Witnesses of the subscription properties\<close>

lemmas demo_wpts_simps = demo_wpts_def start_test_suite_def new_wpts_def default_browsers_def
  default_browser_versions_def

lemma demo_suite_0: "valid_test_suite_id demo_wpts (Some (JNum 0)) = Inr (0, new_test_suite 0)"
  by (simp add: demo_wpts_simps valid_test_suite_id_Inr)

theorem browser_name_rejected_witness:
  "missing_required_args demo_bad_browser_args (required_fields GetSubscription) = None \<and>
   valid_test_suite_id demo_wpts (js_get demo_bad_browser_args ''testSuiteId'') = Inr (0, new_test_suite 0) \<and>
   js_get demo_bad_browser_args ''browserName'' = Some (JStr ''safari'') \<and>
   ''safari'' \<notin> set (supported_browsers demo_wpts) \<and>
   get_subscription_checks (local_browser demo_env) demo_wpts demo_bad_browser_args =
     Inl (invalid_browser_name demo_wpts (Some (JStr ''safari'')))"
proof -
  have m: "missing_required_args demo_bad_browser_args (required_fields GetSubscription) = None"
    by (simp add: demo_bad_browser_args_def missing_required_args_def)
  have v: "valid_test_suite_id demo_wpts (js_get demo_bad_browser_args ''testSuiteId'') = Inr (0, new_test_suite 0)"
    using demo_suite_0 by (simp add: demo_bad_browser_args_def js_simps)
  have b: "\<forall>b. js_get demo_bad_browser_args ''browserName'' = Some (JStr b) \<longrightarrow> b \<notin> set (supported_browsers demo_wpts)"
    by (simp add: demo_bad_browser_args_def demo_wpts_simps js_simps)
  show ?thesis
    using browser_name_rejected [OF m v b, of "local_browser demo_env"] m v b
    by (simp add: demo_bad_browser_args_def demo_wpts_simps js_simps)
qed

theorem firefox_version_bound_witness:
  "get_subscription_checks demo_firefox49 demo_wpts demo_firefox_args \<noteq> Inl bad_browser_support \<and>
   demo_firefox49 ''firefox'' ''stable'' = Some \<lparr>bi_id = ''firefox'', bi_version = 49\<rparr>"
proof -
  have m: "missing_required_args demo_firefox_args (required_fields GetSubscription) = None"
    by (simp add: demo_firefox_args_def missing_required_args_def)
  have v: "valid_test_suite_id demo_wpts (js_get demo_firefox_args ''testSuiteId'') = Inr (0, new_test_suite 0)"
    using demo_suite_0 by (simp add: demo_firefox_args_def js_simps)
  have b: "js_get demo_firefox_args ''browserName'' = Some (JStr ''firefox'')"
    "js_get demo_firefox_args ''browserVersion'' = Some (JStr ''stable'')"
    by (simp_all add: demo_firefox_args_def js_simps)
  have l: "''firefox'' \<in> set (supported_browsers demo_wpts)" "''stable'' \<in> set (supported_browser_versions demo_wpts)"
    by (simp_all add: demo_wpts_simps)
  have f: "demo_firefox49 ''firefox'' ''stable'' = Some \<lparr>bi_id = ''firefox'', bi_version = 49\<rparr>"
    by (simp add: demo_firefox49_def)
  show ?thesis
    using firefox_version_bound [of demo_firefox_args demo_wpts 0 "new_test_suite 0" "''firefox''" "''stable''"
        demo_firefox49 "\<lparr>bi_id = ''firefox'', bi_version = 49\<rparr>"] m v b l f by simp
qed

lemma demo_vapid_checks:
  "missing_required_args (demo_vapid_args k) (required_fields GetSubscription) = None"
  "valid_test_suite_id demo_wpts (js_get (demo_vapid_args k) ''testSuiteId'') = Inr (0, new_test_suite 0)"
  "js_get (demo_vapid_args k) ''browserName'' = Some (JStr ''chrome'')"
  "js_get (demo_vapid_args k) ''browserVersion'' = Some (JStr ''stable'')"
  "js_get (demo_vapid_args k) ''vapidPublicKey'' = Some k"
  "''chrome'' \<in> set (supported_browsers demo_wpts)" "''stable'' \<in> set (supported_browser_versions demo_wpts)"
  "local_browser demo_env ''chrome'' ''stable'' = Some \<lparr>bi_id = ''chrome'', bi_version = 60\<rparr>"
  using demo_suite_0
  by (simp_all add: demo_vapid_args_def demo_sub_args_def missing_required_args_def js_simps demo_wpts_simps
                    demo_env_def)

theorem vapid_falsy_ignored_witness:
  "js_get (demo_vapid_args (JNum 0)) ''vapidPublicKey'' = Some (JNum 0) \<and>
   get_subscription_checks (local_browser demo_env) demo_wpts (demo_vapid_args (JNum 0)) =
     Inr (0, \<lparr>bi_id = ''chrome'', bi_version = 60\<rparr>, [])"
  using vapid_falsy_ignored [of "demo_vapid_args (JNum 0)" demo_wpts 0 "new_test_suite 0" "''chrome''" "''stable''"
      "local_browser demo_env" "\<lparr>bi_id = ''chrome'', bi_version = 60\<rparr>"] demo_vapid_checks by simp

theorem vapid_non_string_rejected_witness:
  "js_get (demo_vapid_args (JNum 7)) ''vapidPublicKey'' = Some (JNum 7) \<and>
   get_subscription_checks (local_browser demo_env) demo_wpts (demo_vapid_args (JNum 7)) = Inl invalid_vapid_key"
  using vapid_non_string_rejected [of "demo_vapid_args (JNum 7)" demo_wpts 0 "new_test_suite 0" "''chrome''" "''stable''"
      "local_browser demo_env" "\<lparr>bi_id = ''chrome'', bi_version = 60\<rparr>"] demo_vapid_checks by simp

lemma demo_get_subscription_run:
  "get_subscription demo_env2 demo_sub_args (fst demo_run0, snd demo_run0) =
     (Some (ValidResponse (Some demo_details)), fst demo_run, snd demo_run)"
proof -
  have "fst (get_subscription demo_env2 demo_sub_args demo_run0) = Some (ValidResponse (Some demo_details))"
    by code_simp
  then show ?thesis by (simp add: demo_run_def prod_eq_iff)
qed

theorem get_subscription_success_witness:
  "get_subscription demo_env2 demo_sub_args (fst demo_run0, snd demo_run0) =
     (Some (ValidResponse (Some demo_details)), fst demo_run, snd demo_run) \<and>
   (\<exists>k s sub. js_get demo_sub_args ''testSuiteId'' = Some (JNum (int k)) \<and> test_suites (fst demo_run0) k = Some s \<and>
      demo_details = test_details (next_test_instance_id s) sub \<and>
      test_suites (fst demo_run) = (test_suites (fst demo_run0))(k \<mapsto> snd (add_test_instance (next_session (snd demo_run0)) s)) \<and>
      next_session (snd demo_run) = Suc (next_session (snd demo_run0)) \<and>
      \<not> br_quit (sessions (snd demo_run) (next_session (snd demo_run0))))"
  using get_subscription_success [OF demo_get_subscription_run] demo_get_subscription_run by simp

theorem harness_absent_no_response_witness:
  "get_subscription_checks (local_browser demo_env) demo_wpts demo_sub_args =
     Inr (0, \<lparr>bi_id = ''chrome'', bi_version = 60\<rparr>, []) \<and>
   test_suites demo_wpts 0 = Some (new_test_suite 0) \<and> launch_error demo_env 0 = None \<and>
   harness_of demo_env 0 = (\<lambda>t p. p) \<and>
   fst (get_subscription demo_env demo_sub_args (demo_wpts, init_world)) = None"
proof -
  have c: "get_subscription_checks (local_browser demo_env) demo_wpts demo_sub_args =
     Inr (0, \<lparr>bi_id = ''chrome'', bi_version = 60\<rparr>, [])"
    by code_simp
  have s: "test_suites demo_wpts 0 = Some (new_test_suite 0)" by (simp add: demo_wpts_simps)
  have l: "launch_error demo_env (next_session init_world) = None" by (simp add: demo_env_def init_world_def)
  have h: "\<forall>t. harness_of demo_env (next_session init_world) t None = None" by (simp add: demo_env_def)
  show ?thesis
    using harness_absent_no_response [OF c s l h] c s l
    by (simp add: demo_env_def init_world_def)
qed

section \<open>Witnesses of isolation and of ending a suite\<close>

lemma demo_end_eq:
  "end_test_suite demo_env2 (demo_end_args k) (fst demo_run, snd demo_run) =
     (fst (demo_end k), fst (snd (demo_end k)), snd (snd (demo_end k)))"
  by (simp add: demo_end_def)

theorem requests_isolated_witness:
  "reachable demo_env2 (fst demo_run, snd demo_run) \<and>
   handle demo_env2 EndTestSuite (demo_end_args 1) (fst demo_run, snd demo_run) =
     (fst (demo_end 1), fst (snd (demo_end 1)), snd (snd (demo_end 1))) \<and>
   EndTestSuite \<noteq> StartTestSuite \<and> js_get (demo_end_args 1) ''testSuiteId'' \<noteq> Some (JNum (int 0)) \<and>
   test_suites (fst (snd (demo_end 1))) 0 = Some demo_run_suite"
proof -
  have h: "handle demo_env2 EndTestSuite (demo_end_args 1) (fst demo_run, snd demo_run) =
     (fst (demo_end 1), fst (snd (demo_end 1)), snd (snd (demo_end 1)))"
    using demo_end_eq by simp
  have o: "js_get (demo_end_args 1) ''testSuiteId'' \<noteq> Some (JNum (int 0))"
    by (simp add: demo_end_args_def js_simps)
  show ?thesis
    using requests_isolated [OF _ h _ o] demo_run_reachable h o demo_run_suite_0 by simp
qed

theorem end_test_suite_result_witness:
  "reachable demo_env2 (fst demo_run, snd demo_run) \<and>
   missing_required_args (demo_end_args 0) (required_fields EndTestSuite) = None \<and>
   valid_test_suite_id (fst demo_run) (js_get (demo_end_args 0) ''testSuiteId'') = Inr (0, demo_run_suite) \<and>
   end_test_suite demo_env2 (demo_end_args 0) (fst demo_run, snd demo_run) =
     (fst (demo_end 0), fst (snd (demo_end 0)), snd (snd (demo_end 0))) \<and>
   fst (demo_end 0) = Some (ValidResponse None) \<and> test_suites (fst (snd (demo_end 0))) 0 = None"
proof -
  have m: "missing_required_args (demo_end_args 0) (required_fields EndTestSuite) = None"
    by (simp add: demo_end_args_def missing_required_args_def)
  have v: "valid_test_suite_id (fst demo_run) (js_get (demo_end_args 0) ''testSuiteId'') = Inr (0, demo_run_suite)"
    using demo_run_suite_0 by (simp add: demo_end_args_def js_simps valid_test_suite_id_Inr)
  show ?thesis
    using end_test_suite_result [OF _ m v demo_end_eq] demo_run_reachable m v demo_end_eq
    by (simp add: demo_env2_def prod_eq_iff)
qed

end
